theory Spec2Isabelle
  imports Main
begin

section \<open>Python values\<close>

text \<open>
  A Python \<open>str\<close> is the list of its Unicode code points, so that \<open>len\<close> is
  \<open>length\<close>. ASCII literals of the source are written with \<open>py\<close>.
\<close>

type_synonym pystr = "nat list"

definition py :: "string \<Rightarrow> pystr" where
  "py s = map of_char s"

text \<open>
  The values that \<open>json.loads\<close> produces and that the program passes around. A \<open>dict\<close>
  is an association list in insertion order with distinct keys. A \<open>float\<close> is kept as
  the text of its literal: no floating-point arithmetic is done on it anywhere in the program.
\<close>

datatype pyval =
    PNone
  | PBool bool
  | PInt int
  | PFloat pystr
  | PStr pystr
  | PList "pyval list"
  | PDict "(pystr \<times> pyval) list"

text \<open>An exception (below \<open>Exception\<close>): its class and the text of \<open>str(e)\<close>.\<close>

datatype exn_class =
  JSONDecodeError | KeyError | IndexError | TypeError | AttributeError | OtherError

datatype exn = Exn exn_class pystr

fun exn_str :: "exn \<Rightarrow> pystr" where
  "exn_str (Exn c m) = m"

fun exn_cls :: "exn \<Rightarrow> exn_class" where
  "exn_cls (Exn c m) = c"

text \<open>\<open>d[k] = v\<close> on a dict: an existing key keeps its place and gets the new value.\<close>

fun dict_setitem :: "(pystr \<times> pyval) list \<Rightarrow> pystr \<Rightarrow> pyval \<Rightarrow> (pystr \<times> pyval) list" where
  "dict_setitem [] k v = [(k, v)]"
| "dict_setitem ((k', v') # d) k v =
     (if k' = k then (k, v) # d else (k', v') # dict_setitem d k v)"

fun dict_get :: "(pystr \<times> pyval) list \<Rightarrow> pystr \<Rightarrow> pyval option" where
  "dict_get [] k = None"
| "dict_get ((k', v') # d) k = (if k' = k then Some v' else dict_get d k)"

definition dict_keys :: "(pystr \<times> pyval) list \<Rightarrow> pystr list" where
  "dict_keys d = map fst d"

subsection \<open>Methods of \<open>str\<close>\<close>

text \<open>\<open>str.isspace\<close> for one character: the code points Unicode classes as whitespace.\<close>

definition py_isspace :: "nat \<Rightarrow> bool" where
  "py_isspace c \<longleftrightarrow>
     (9 \<le> c \<and> c \<le> 13) \<or> (28 \<le> c \<and> c \<le> 32) \<or> c = 0x85 \<or> c = 0xA0 \<or> c = 0x1680 \<or>
     (0x2000 \<le> c \<and> c \<le> 0x200A) \<or> c = 0x2028 \<or> c = 0x2029 \<or> c = 0x202F \<or>
     c = 0x205F \<or> c = 0x3000"

definition py_strip :: "pystr \<Rightarrow> pystr" where
  "py_strip s = rev (dropWhile py_isspace (rev (dropWhile py_isspace s)))"

definition py_startswith :: "pystr \<Rightarrow> pystr \<Rightarrow> bool" where
  "py_startswith s p \<longleftrightarrow> take (length p) s = p"

text \<open>\<open>'%d' % n\<close> for a natural number.\<close>

fun py_dec :: "nat \<Rightarrow> pystr" where
  "py_dec n = (if n < 10 then [48 + n] else py_dec (n div 10) @ [48 + n mod 10])"

declare py_dec.simps [simp del]

section \<open>The JSON decoder\<close>

text \<open>
  \<open>json.loads\<close> of the standard library (CPython 3.11, default arguments), on a \<open>str\<close>:
  the value, or the \<open>JSONDecodeError\<close> with its message and position. The interpreter's
  resource limits (recursion depth, digits of an integer literal) are not modelled.
\<close>

definition json_error :: "pystr \<Rightarrow> pystr \<Rightarrow> nat \<Rightarrow> exn" where
  "json_error msg doc pos =
     Exn JSONDecodeError
       (msg @ py '': line '' @ py_dec (Suc (count_list (take pos doc) 10))
            @ py '' column '' @ py_dec (Suc (length (takeWhile (\<lambda>c. c \<noteq> 10) (rev (take pos doc)))))
            @ py '' (char '' @ py_dec pos @ py '')'')"

definition hexval :: "nat \<Rightarrow> nat option" where
  "hexval c =
     (if 48 \<le> c \<and> c \<le> 57 then Some (c - 48)
      else if 97 \<le> c \<and> c \<le> 102 then Some (c - 87)
      else if 65 \<le> c \<and> c \<le> 70 then Some (c - 55)
      else None)"

fun decode_hex :: "nat \<Rightarrow> pystr \<Rightarrow> nat option" where
  "decode_hex acc [] = Some acc"
| "decode_hex acc (c # cs) =
     (case hexval c of None \<Rightarrow> None | Some d \<Rightarrow> decode_hex (16 * acc + d) cs)"

definition escape_char :: "nat \<Rightarrow> nat option" where
  "escape_char e =
     (if e = 34 \<or> e = 92 \<or> e = 47 then Some e
      else if e = 98 then Some 8
      else if e = 102 then Some 12
      else if e = 110 then Some 10
      else if e = 114 then Some 13
      else if e = 116 then Some 9
      else None)"

definition msg_unterminated :: pystr where
  "msg_unterminated = py ''Unterminated string starting at''"

definition msg_uxxxx :: pystr where
  "msg_uxxxx = py ''Invalid '' @ [92] @ py ''uXXXX escape''"

definition msg_escape :: pystr where
  "msg_escape = py ''Invalid '' @ [92] @ py ''escape''"

definition msg_control :: pystr where
  "msg_control = py ''Invalid control character at''"

text \<open>
  \<open>scanstring begin pos acc s\<close>: \<open>s\<close> is the text from index \<open>pos\<close> on, inside a string
  literal whose opening quote is at \<open>begin\<close>; \<open>acc\<close> holds the decoded characters so
  far, last first. The result is the decoded string and the index after the closing quote,
  or the error message and its position.
\<close>

fun scanstring :: "nat \<Rightarrow> nat \<Rightarrow> pystr \<Rightarrow> pystr \<Rightarrow> (pystr \<times> nat) + (pystr \<times> nat)" where
  "scanstring begin pos acc [] = Inl (msg_unterminated, begin)"
| "scanstring begin pos acc (c # cs) =
     (if c = 34 then Inr (rev acc, Suc pos)
      else if c = 92 then
        (case cs of
           [] \<Rightarrow> Inl (msg_unterminated, begin)
         | e # es \<Rightarrow>
             if e \<noteq> 117 then
               (case escape_char e of
                  None \<Rightarrow> Inl (msg_escape, pos)
                | Some ch \<Rightarrow> scanstring begin (pos + 2) (ch # acc) es)
             else if length es < 5 then Inl (msg_uxxxx, pos + 1)
             else
               (case decode_hex 0 (take 4 es) of
                  None \<Rightarrow> Inl (msg_uxxxx, pos + 1)
                | Some u \<Rightarrow>
                    if 0xD800 \<le> u \<and> u \<le> 0xDBFF \<and> 10 < length es
                       \<and> take 2 (drop 4 es) = [92, 117] then
                      (case decode_hex 0 (take 4 (drop 6 es)) of
                         None \<Rightarrow> Inl (msg_uxxxx, pos + 7)
                       | Some u2 \<Rightarrow>
                           if 0xDC00 \<le> u2 \<and> u2 \<le> 0xDFFF then
                             scanstring begin (pos + 12)
                               ((0x10000 + (u - 0xD800) * 1024 + (u2 - 0xDC00)) # acc)
                               (drop 10 es)
                           else scanstring begin (pos + 6) (u # acc) (drop 4 es))
                    else scanstring begin (pos + 6) (u # acc) (drop 4 es)))
      else if c \<le> 31 then Inl (msg_control, pos)
      else scanstring begin (Suc pos) (c # acc) cs)"

declare scanstring.simps [simp del]

subsection \<open>Numbers and constants\<close>

definition is_digit :: "nat \<Rightarrow> bool" where
  "is_digit c \<longleftrightarrow> 48 \<le> c \<and> c \<le> 57"

text \<open>
  The longest prefix matching \<open>-?(0|[1-9][0-9]*)(\.[0-9]+)?([eE][-+]?[0-9]+)?\<close>, with a flag
  telling whether it has a fraction or an exponent.
\<close>

definition match_number :: "pystr \<Rightarrow> (pystr \<times> bool) option" where
  "match_number s =
     (let neg = (take 1 s = [45]);
          r0 = (if neg then drop 1 s else s);
          intpart = (case r0 of
                       [] \<Rightarrow> []
                     | d # ds \<Rightarrow> if d = 48 then [48]
                                else if is_digit d then d # takeWhile is_digit ds
                                else [])
      in if intpart = [] then None
         else
           let r1 = drop (length intpart) r0;
               frac = (case r1 of
                         [] \<Rightarrow> []
                       | p # ps \<Rightarrow> if p = 46 \<and> takeWhile is_digit ps \<noteq> []
                                  then p # takeWhile is_digit ps else []);
               r2 = drop (length frac) r1;
               ex = (case r2 of
                       [] \<Rightarrow> []
                     | e # es \<Rightarrow>
                         if e = 101 \<or> e = 69 then
                           (let sg = (if take 1 es = [43] \<or> take 1 es = [45] then take 1 es else []);
                                ds = takeWhile is_digit (drop (length sg) es)
                            in if ds = [] then [] else e # sg @ ds)
                         else [])
           in Some ((if neg then [45] else []) @ intpart @ frac @ ex, \<not> (frac = [] \<and> ex = [])))"

text \<open>\<open>int(lexeme)\<close> for a lexeme without fraction and exponent.\<close>

definition int_of_lexeme :: "pystr \<Rightarrow> int" where
  "int_of_lexeme lx =
     (if take 1 lx = [45] then - int (foldl (\<lambda>a c. 10 * a + (c - 48)) 0 (drop 1 lx))
      else int (foldl (\<lambda>a c. 10 * a + (c - 48)) 0 lx))"

text \<open>A value that is neither a string nor a container, and the number of characters it takes.\<close>

definition scan_atom :: "pystr \<Rightarrow> (pyval \<times> nat) option" where
  "scan_atom s =
     (if take 4 s = py ''null'' then Some (PNone, 4)
      else if take 4 s = py ''true'' then Some (PBool True, 4)
      else if take 5 s = py ''false'' then Some (PBool False, 5)
      else
        (case match_number s of
           Some (lx, is_float) \<Rightarrow>
             Some (if is_float then PFloat lx else PInt (int_of_lexeme lx), length lx)
         | None \<Rightarrow>
             if take 3 s = py ''NaN'' then Some (PFloat (py ''NaN''), 3)
             else if take 8 s = py ''Infinity'' then Some (PFloat (py ''Infinity''), 8)
             else if take 9 s = py ''-Infinity'' then Some (PFloat (py ''-Infinity''), 9)
             else None))"

subsection \<open>Tokens\<close>

datatype token =
    TLBrace | TRBrace | TLBrack | TRBrack | TColon | TComma
  | TString pystr
  | TStringErr pystr nat
  | TAtom pyval
  | TBad
  | TEnd

text \<open>
  The tokens of a document with the index each starts at. The list ends at the end of the
  text (\<open>TEnd\<close>), at a character no token starts with (\<open>TBad\<close>), or at a string literal
  that cannot be scanned (\<open>TStringErr\<close>, with the error the scan raises).
\<close>

function tokenize :: "nat \<Rightarrow> pystr \<Rightarrow> (nat \<times> token) list" where
  "tokenize pos [] = [(pos, TEnd)]"
| "tokenize pos (c # cs) =
     (if c = 32 \<or> c = 9 \<or> c = 10 \<or> c = 13 then tokenize (Suc pos) cs
      else if c = 123 then (pos, TLBrace) # tokenize (Suc pos) cs
      else if c = 125 then (pos, TRBrace) # tokenize (Suc pos) cs
      else if c = 91 then (pos, TLBrack) # tokenize (Suc pos) cs
      else if c = 93 then (pos, TRBrack) # tokenize (Suc pos) cs
      else if c = 58 then (pos, TColon) # tokenize (Suc pos) cs
      else if c = 44 then (pos, TComma) # tokenize (Suc pos) cs
      else if c = 34 then
        (case scanstring pos (Suc pos) [] cs of
           Inl (msg, p) \<Rightarrow> [(pos, TStringErr msg p)]
         | Inr (v, e) \<Rightarrow> (pos, TString v) # tokenize e (drop (e - Suc pos) cs))
      else
        (case scan_atom (c # cs) of
           None \<Rightarrow> [(pos, TBad)]
         | Some (v, n) \<Rightarrow> (pos, TAtom v) # tokenize (pos + n) (drop (n - 1) cs)))"
  by pat_completeness auto
termination
  by (relation "measure (\<lambda>(pos, s). length s)") auto

declare tokenize.simps [simp del]

subsection \<open>The parser\<close>

text \<open>
  The containers still open, innermost first: an array with its elements so far (last first),
  or an object with its items so far and the key whose value is being read.
\<close>

datatype frame = FArr "pyval list" | FObj "(pystr \<times> pyval) list" pystr

datatype mode = MValue | MArrStart | MObjStart | MKey | MColon | MAfter | MDone pyval

definition msg_value :: pystr where
  "msg_value = py ''Expecting value''"

definition msg_name :: pystr where
  "msg_name = py ''Expecting property name enclosed in double quotes''"

definition msg_colon :: pystr where
  "msg_colon = py ''Expecting '' @ [39, 58, 39] @ py '' delimiter''"

definition msg_comma :: pystr where
  "msg_comma = py ''Expecting '' @ [39, 44, 39] @ py '' delimiter''"

definition msg_extra :: pystr where
  "msg_extra = py ''Extra data''"

definition msg_bom :: pystr where
  "msg_bom = py ''Unexpected UTF-8 BOM (decode using utf-8-sig)''"

text \<open>A value is complete: it goes into the innermost open container, or it is the result.\<close>

fun finish :: "pyval \<Rightarrow> frame list \<Rightarrow> mode \<times> frame list" where
  "finish v [] = (MDone v, [])"
| "finish v (FArr xs # st) = (MAfter, FArr (v # xs) # st)"
| "finish v (FObj d k # st) = (MAfter, FObj (dict_setitem d k v) k # st)"

fun start_value :: "nat \<Rightarrow> token \<Rightarrow> frame list \<Rightarrow> (pystr \<times> nat) + (mode \<times> frame list)" where
  "start_value pos TLBrace st = Inr (MObjStart, FObj [] [] # st)"
| "start_value pos TLBrack st = Inr (MArrStart, FArr [] # st)"
| "start_value pos (TString s) st = Inr (finish (PStr s) st)"
| "start_value pos (TStringErr msg p) st = Inl (msg, p)"
| "start_value pos (TAtom v) st = Inr (finish v st)"
| "start_value pos _ st = Inl (msg_value, pos)"

fun start_key :: "nat \<Rightarrow> token \<Rightarrow> frame list \<Rightarrow> (pystr \<times> nat) + (mode \<times> frame list)" where
  "start_key pos (TString k) (FObj d _ # st) = Inr (MColon, FObj d k # st)"
| "start_key pos (TStringErr msg p) st = Inl (msg, p)"
| "start_key pos _ st = Inl (msg_name, pos)"

text \<open>After a value: a comma or the closing bracket of the innermost open container.\<close>

fun after_value :: "frame list \<Rightarrow> nat \<Rightarrow> token \<Rightarrow> (pystr \<times> nat) + (mode \<times> frame list)" where
  "after_value (FArr xs # st) pos t =
     (if t = TComma then Inr (MValue, FArr xs # st)
      else if t = TRBrack then Inr (finish (PList (rev xs)) st)
      else Inl (msg_comma, pos))"
| "after_value (FObj d k # st) pos t =
     (if t = TComma then Inr (MKey, FObj d k # st)
      else if t = TRBrace then Inr (finish (PDict d) st)
      else Inl (msg_comma, pos))"
| "after_value [] pos t = Inl (msg_comma, pos)"

text \<open>
  One token in one mode. In \<open>MArrStart\<close> and \<open>MObjStart\<close> the innermost open container
  is the one just opened; with no container open the mode after a value is \<open>MDone\<close>.
\<close>

fun step :: "mode \<Rightarrow> frame list \<Rightarrow> nat \<Rightarrow> token \<Rightarrow> (pystr \<times> nat) + (mode \<times> frame list)" where
  "step MValue st pos t = start_value pos t st"
| "step MArrStart st pos t =
     (if t = TRBrack then Inr (finish (PList []) (drop 1 st)) else start_value pos t st)"
| "step MObjStart st pos t =
     (if t = TRBrace then Inr (finish (PDict []) (drop 1 st)) else start_key pos t st)"
| "step MKey st pos t = start_key pos t st"
| "step MColon st pos t = (if t = TColon then Inr (MValue, st) else Inl (msg_colon, pos))"
| "step MAfter st pos t = after_value st pos t"
| "step (MDone v) st pos t = Inl (msg_extra, pos)"

text \<open>
  The tokens in order, until the value is complete and the text ends, or a token has no
  place. The last equation is not reached on the tokens of a document, which end with
  \<open>TEnd\<close>, \<open>TBad\<close> or \<open>TStringErr\<close>.
\<close>

fun parse :: "mode \<Rightarrow> frame list \<Rightarrow> (nat \<times> token) list \<Rightarrow> (pystr \<times> nat) + pyval" where
  "parse (MDone v) st ((pos, TEnd) # ts) = Inr v"
| "parse m st ((pos, t) # ts) =
     (case step m st pos t of
        Inl err \<Rightarrow> Inl err
      | Inr (m', st') \<Rightarrow> parse m' st' ts)"
| "parse m st [] = Inl (msg_value, 0)"

definition json_loads :: "pystr \<Rightarrow> exn + pyval" where
  "json_loads s =
     (if take 1 s = [0xFEFF] then Inl (json_error msg_bom s 0)
      else
        (case parse MValue [] (tokenize 0 s) of
           Inl (msg, pos) \<Rightarrow> Inl (json_error msg s pos)
         | Inr v \<Rightarrow> Inr v))"

section \<open>Operations of the interpreter on values\<close>

text \<open>Messages are those of CPython 3.11.\<close>

fun type_name :: "pyval \<Rightarrow> pystr" where
  "type_name PNone = py ''NoneType''"
| "type_name (PBool b) = py ''bool''"
| "type_name (PInt n) = py ''int''"
| "type_name (PFloat x) = py ''float''"
| "type_name (PStr s) = py ''str''"
| "type_name (PList xs) = py ''list''"
| "type_name (PDict d) = py ''dict''"

definition not_subscriptable :: "pyval \<Rightarrow> exn" where
  "not_subscriptable v =
     Exn TypeError ([39] @ type_name v @ [39] @ py '' object is not subscriptable'')"

text \<open>
  \<open>v[k]\<close> for a \<open>str\<close> \<open>k\<close>. The text of the \<open>KeyError\<close> is \<open>repr(k)\<close>, written
  here for a key without quotes, backslashes or unprintable characters.
\<close>

fun getitem_str :: "pyval \<Rightarrow> pystr \<Rightarrow> exn + pyval" where
  "getitem_str (PDict d) k =
     (case dict_get d k of
        Some v \<Rightarrow> Inr v
      | None \<Rightarrow> Inl (Exn KeyError ([39] @ k @ [39])))"
| "getitem_str (PList xs) k =
     Inl (Exn TypeError (py ''list indices must be integers or slices, not str''))"
| "getitem_str (PStr s) k =
     Inl (Exn TypeError (py ''string indices must be integers, not '' @ [39] @ py ''str'' @ [39]))"
| "getitem_str v k = Inl (not_subscriptable v)"

text \<open>\<open>v[0]\<close>. The keys of a dict are strings, so \<open>0\<close> is never one of them.\<close>

fun getitem_0 :: "pyval \<Rightarrow> exn + pyval" where
  "getitem_0 (PList []) = Inl (Exn IndexError (py ''list index out of range''))"
| "getitem_0 (PList (x # xs)) = Inr x"
| "getitem_0 (PStr []) = Inl (Exn IndexError (py ''string index out of range''))"
| "getitem_0 (PStr (c # cs)) = Inr (PStr [c])"
| "getitem_0 (PDict d) = Inl (Exn KeyError (py ''0''))"
| "getitem_0 v = Inl (not_subscriptable v)"

text \<open>\<open>json.loads(v)\<close> for any value.\<close>

fun py_json_loads :: "pyval \<Rightarrow> exn + pyval" where
  "py_json_loads (PStr s) = json_loads s"
| "py_json_loads v =
     Inl (Exn TypeError (py ''the JSON object must be str, bytes or bytearray, not '' @ type_name v))"

text \<open>\<open>v.strip()\<close> for any value.\<close>

fun strip_method :: "pyval \<Rightarrow> exn + pystr" where
  "strip_method (PStr s) = Inr (py_strip s)"
| "strip_method v =
     Inl (Exn AttributeError
       ([39] @ type_name v @ [39] @ py '' object has no attribute '' @ [39] @ py ''strip'' @ [39]))"

fun contains_sub :: "pystr \<Rightarrow> pystr \<Rightarrow> bool" where
  "contains_sub p [] = (p = [])"
| "contains_sub p (c # cs) = (py_startswith (c # cs) p \<or> contains_sub p cs)"

text \<open>
  \<open>k in v\<close> for a \<open>str\<close> \<open>k\<close>: a key of a dict, an element of a list, a substring of
  a string; the other values are not iterable.
\<close>

fun py_contains :: "pystr \<Rightarrow> pyval \<Rightarrow> exn + bool" where
  "py_contains k (PDict d) = Inr (k \<in> set (dict_keys d))"
| "py_contains k (PList xs) = Inr (PStr k \<in> set xs)"
| "py_contains k (PStr s) = Inr (contains_sub k s)"
| "py_contains k v =
     Inl (Exn TypeError
       (py ''argument of type '' @ [39] @ type_name v @ [39] @ py '' is not iterable''))"

text \<open>
  \<open>re.search(r"\{[\s\S]*\}", s)\<close> and \<open>group(0)\<close> of the match: the leftmost match
  starts at the first opening brace, and the star is greedy, so it ends at the last closing
  brace after it.
\<close>

definition re_search_braces :: "pystr \<Rightarrow> pystr option" where
  "re_search_braces s =
     (let t = dropWhile (\<lambda>c. c \<noteq> 123) s
      in if 125 \<in> set t then Some (rev (dropWhile (\<lambda>c. c \<noteq> 125) (rev t))) else None)"

fun py_re_search_braces :: "pyval \<Rightarrow> exn + pystr option" where
  "py_re_search_braces (PStr s) = Inr (re_search_braces s)"
| "py_re_search_braces v =
     Inl (Exn TypeError
       (py ''expected string or bytes-like object, got '' @ [39] @ type_name v @ [39]))"

text \<open>\<open>f"{v}"\<close> for the value of an environment variable, which may be \<open>None\<close>.\<close>

fun format_optional :: "pystr option \<Rightarrow> pystr" where
  "format_optional None = py ''None''"
| "format_optional (Some s) = s"

text \<open>\<open>os.path.join(a, b)\<close> on a POSIX system, for \<open>a\<close> without a final slash and a relative \<open>b\<close>.\<close>

definition os_path_join :: "pystr \<Rightarrow> pystr \<Rightarrow> pystr" where
  "os_path_join a b = a @ py ''/'' @ b"

text \<open>\<open>name.split(".")[-1]\<close>: what follows the last dot, the whole name when it has none.\<close>

definition split_dot_last :: "pystr \<Rightarrow> pystr" where
  "split_dot_last name = rev (takeWhile (\<lambda>c. c \<noteq> 46) (rev name))"

section \<open>The world outside the program\<close>

text \<open>A call of a library function, as the source writes it: positional and keyword arguments.\<close>

record pycall =
  func :: string
  args :: "pyval list"
  kwargs :: "(string \<times> pyval) list"

definition call :: "string \<Rightarrow> pyval list \<Rightarrow> (string \<times> pyval) list \<Rightarrow> pycall" where
  "call f a k = \<lparr>func = f, args = a, kwargs = k\<rparr>"

definition kwarg :: "pycall \<Rightarrow> string \<Rightarrow> pyval option" where
  "kwarg c k = map_of (kwargs c) k"

text \<open>
  The response object of \<open>requests\<close>: what its two methods used by the program do
  (\<open>raise_for_status()\<close> raises or not, \<open>json()\<close> raises or returns the decoded body).
\<close>

record response =
  raise_for_status :: "exn option"
  json :: "exn + pyval"

text \<open>
  What the libraries and the operating system answer; the theorems hold for every world.
  \<^item> \<open>api_key\<close>: \<open>os.environ.get("GROQ_API_KEY")\<close> after \<open>load_dotenv()\<close>;
  \<^item> \<open>read_text p\<close>: \<open>open(p, "r", encoding="utf-8")\<close> and \<open>f.read()\<close>;
  \<^item> \<open>pdf_pages p\<close>: \<open>open(p, "rb")\<close>, \<open>PyPDF2.PdfReader(f)\<close> and \<open>extract_text()\<close> of each
    page in turn (\<open>None\<close> for a page without text), or the first exception on the way;
  \<^item> \<open>docx_paragraphs p\<close>: \<open>docx.Document(p)\<close> and the text of each paragraph;
  \<^item> \<open>requests_post c\<close>: the response to the call \<open>c\<close> of \<open>requests.post\<close>, or its exception;
  \<^item> \<open>json_dumps v\<close>: \<open>json.dumps(v, indent=2)\<close>;
  \<^item> \<open>str_lower s\<close>: \<open>s.lower()\<close>;
  \<^item> \<open>write_file p b\<close>: \<open>open(p, "wb")\<close> and \<open>f.write(b)\<close>, \<open>None\<close> when they succeed;
  \<^item> \<open>effect c\<close>: a call made for its effect, \<open>None\<close> when it succeeds.
\<close>

record world =
  api_key :: "pystr option"
  read_text :: "pystr \<Rightarrow> exn + pystr"
  pdf_pages :: "pystr \<Rightarrow> exn + pystr option list"
  docx_paragraphs :: "pystr \<Rightarrow> exn + pystr list"
  requests_post :: "pycall \<Rightarrow> exn + response"
  json_dumps :: "pyval \<Rightarrow> pystr"
  str_lower :: "pystr \<Rightarrow> pystr"
  write_file :: "pystr \<Rightarrow> nat list \<Rightarrow> exn option"
  effect :: "pycall \<Rightarrow> exn option"

text \<open>What a run does that can be observed from outside, in order.\<close>

datatype event =
    WriteFile pystr "nat list"
  | Call pycall
  | Crash exn

definition GROQ_API_BASE :: pystr where
  "GROQ_API_BASE = py ''https://api.groq.com/openai/v1''"

definition UPLOAD_PATH :: pystr where
  "UPLOAD_PATH = py ''__DATA__''"

section \<open>Text extraction\<close>

text \<open>
  The body of the \<open>try\<close> of \<open>extract_text\<close>: the text, or the exception raised in it.
  The type tag is always given here (the shell passes it; the default of the source is \<open>pdf\<close>).
\<close>

definition extract_text_try :: "world \<Rightarrow> pystr \<Rightarrow> pystr \<Rightarrow> exn + pystr" where
  "extract_text_try w file_path file_type =
     (if file_type = py ''pdf'' then
        (case pdf_pages w file_path of
           Inl e \<Rightarrow> Inl e
         | Inr pages \<Rightarrow>
             Inr (py_strip (foldl (\<lambda>text page.
                    text @ (case page of None \<Rightarrow> [] | Some t \<Rightarrow> t) @ [10]) [] pages)))
      else if file_type = py ''docx'' then
        (case docx_paragraphs w file_path of
           Inl e \<Rightarrow> Inl e
         | Inr paragraphs \<Rightarrow>
             Inr (py_strip (foldl (\<lambda>text para. text @ para @ [10]) [] paragraphs)))
      else if file_type = py ''txt'' then
        (case read_text w file_path of
           Inl e \<Rightarrow> Inl e
         | Inr text \<Rightarrow> Inr (py_strip text))
      else Inr (py_strip []))"

text \<open>The library calls \<open>extract_text\<close> makes on the file.\<close>

definition extract_text_calls :: "pystr \<Rightarrow> pystr \<Rightarrow> event list" where
  "extract_text_calls file_path file_type =
     (if file_type = py ''pdf'' then
        [Call (call ''open'' [PStr file_path, PStr (py ''rb'')] [])]
      else if file_type = py ''docx'' then
        [Call (call ''docx.Document'' [PStr file_path] [])]
      else if file_type = py ''txt'' then
        [Call (call ''open'' [PStr file_path, PStr (py ''r'')] [(''encoding'', PStr (py ''utf-8''))])]
      else [])"

definition extract_text :: "world \<Rightarrow> pystr \<Rightarrow> pystr \<Rightarrow> pystr \<times> event list" where
  "extract_text w file_path file_type =
     (case extract_text_try w file_path file_type of
        Inr text \<Rightarrow> text
      | Inl e \<Rightarrow> py ''__READ_ERROR__:'' @ exn_str e,
      extract_text_calls file_path file_type)"

section \<open>The chat-completion requests\<close>

text \<open>The lines of the prompt template of \<open>extract_job_fields\<close> before the job description.\<close>

definition prompt_lines :: "pystr list" where
  "prompt_lines =
     [py ''You are an expert job information extraction assistant.'',
      [],
      py ''From the job description below, extract and return a structured JSON object'',
      py ''with the following fields:'',
      [],
      py ''- job_title'',
      py ''- company_name'',
      py ''- location'',
      py ''- employment_type'',
      py ''- seniority_level'',
      py ''- hard_skills'',
      py ''- soft_skills'',
      py ''- certifications'',
      py ''- tools'',
      py ''- experience'',
      py ''- education_level'',
      py ''- duties_and_responsibilities'',
      py ''- preferred_skills'',
      py ''- communication_skills'',
      py ''- language'',
      py ''- salary'',
      [],
      py ''Rules:'',
      py ''- Use lists for fields like skills, certifications, tools, or languages.'',
      py ''- If a field is not present, return null or an empty list.'',
      py ''- Maintain JSON validity strictly '' @ [0xE2, 0x20AC, 0x201D] @ py '' no explanations or extra text.'',
      py ''- Do not infer or guess beyond the text; extract only what is clearly mentioned.'',
      [],
      py ''Job Description:'']"

definition extraction_prompt :: "pystr \<Rightarrow> pystr" where
  "extraction_prompt job_text =
     [10] @ concat (map (\<lambda>l. l @ [10]) prompt_lines)
       @ [34, 34, 34] @ job_text @ [34, 34, 34] @ [10]"

text \<open>
  The fields a prompt enumerates: the items (lines \<open>- name\<close>) between the line that
  announces the fields and the line \<open>Rules:\<close>.
\<close>

definition listed_fields :: "pystr list \<Rightarrow> pystr list" where
  "listed_fields ls =
     map (drop 2)
       (filter (\<lambda>l. py_startswith l (py ''- ''))
          (takeWhile (\<lambda>l. l \<noteq> py ''Rules:'')
             (dropWhile (\<lambda>l. l \<noteq> py ''with the following fields:'') ls)))"

definition request_headers :: "world \<Rightarrow> pyval" where
  "request_headers w =
     PDict [(py ''Authorization'', PStr (py ''Bearer '' @ format_optional (api_key w))),
            (py ''Content-Type'', PStr (py ''application/json''))]"

definition fields_request :: "world \<Rightarrow> pystr \<Rightarrow> pycall" where
  "fields_request w job_text =
     call ''requests.post'' [PStr (GROQ_API_BASE @ py ''/chat/completions'')]
       [(''headers'', request_headers w),
        (''json'', PDict
           [(py ''model'', PStr (py ''llama-3.3-70b-versatile'')),
            (py ''messages'', PList
               [PDict [(py ''role'', PStr (py ''user'')),
                       (py ''content'', PStr (extraction_prompt job_text))]]),
            (py ''temperature'', PInt 0),
            (py ''max_tokens'', PInt 1200)]),
        (''timeout'', PInt 30)]"

definition intro_prompt :: "world \<Rightarrow> pyval \<Rightarrow> pystr" where
  "intro_prompt w job_json =
     py ''You are an HR assistant creating a professional spoken job introduction ''
     @ py ''for a voice-over. Write a 2-paragraph overview (around 100''
     @ [0xE2, 0x20AC, 0x201C] @ py ''150 words) ''
     @ py ''highlighting the role, key skills, company, and what makes this position appealing. ''
     @ py ''Use a friendly yet professional tone.'' @ [10, 10]
     @ py ''Job Data:'' @ [10] @ json_dumps w job_json"

definition intro_request :: "world \<Rightarrow> pyval \<Rightarrow> pycall" where
  "intro_request w job_json =
     call ''requests.post'' [PStr (GROQ_API_BASE @ py ''/chat/completions'')]
       [(''headers'', request_headers w),
        (''json'', PDict
           [(py ''model'', PStr (py ''llama-3.3-70b-versatile'')),
            (py ''messages'', PList
               [PDict [(py ''role'', PStr (py ''user'')),
                       (py ''content'', PStr (intro_prompt w job_json))]]),
            (py ''temperature'', PFloat (py ''0.7'')),
            (py ''max_tokens'', PInt 400)]),
        (''timeout'', PInt 30)]"

text \<open>A field of the \<open>json=\<close> body of a request.\<close>

definition body_field :: "pycall \<Rightarrow> pystr \<Rightarrow> pyval option" where
  "body_field c k =
     (case kwarg c ''json'' of
        Some (PDict d) \<Rightarrow> dict_get d k
      | _ \<Rightarrow> None)"

text \<open>Sequencing of steps that may raise.\<close>

fun and_then :: "exn + 'a \<Rightarrow> ('a \<Rightarrow> exn + 'b) \<Rightarrow> exn + 'b" where
  "and_then (Inl e) f = Inl e"
| "and_then (Inr x) f = f x"

text \<open>
  The three statements both clients start their \<open>try\<close> with: the request, \<open>raise_for_status()\<close>,
  and \<open>response.json()["choices"][0]["message"]["content"]\<close>.
\<close>

definition chat_content :: "world \<Rightarrow> pycall \<Rightarrow> exn + pyval" where
  "chat_content w c =
     and_then (requests_post w c) (\<lambda>r.
       case raise_for_status r of
         Some e \<Rightarrow> Inl e
       | None \<Rightarrow>
           and_then (json r) (\<lambda>body.
           and_then (getitem_str body (py ''choices'')) (\<lambda>choices.
           and_then (getitem_0 choices) (\<lambda>choice.
           and_then (getitem_str choice (py ''message'')) (\<lambda>message.
             getitem_str message (py ''content''))))))"

section \<open>Field extraction\<close>

text \<open>
  What follows the reading of \<open>content\<close> in the \<open>try\<close> of \<open>extract_job_fields\<close>: the inner
  \<open>try\<close> catches a \<open>JSONDecodeError\<close> only, and the second \<open>json.loads\<close> is outside it.
\<close>

definition parse_reply :: "pyval \<Rightarrow> exn + pyval" where
  "parse_reply content =
     (case py_json_loads content of
        Inr v \<Rightarrow> Inr v
      | Inl e \<Rightarrow>
          if exn_cls e = JSONDecodeError then
            and_then (py_re_search_braces content) (\<lambda>json_match.
              case json_match of
                Some group0 \<Rightarrow> json_loads group0
              | None \<Rightarrow>
                  Inr (PDict [(py ''error'', PStr (py ''No valid JSON detected'')),
                              (py ''raw_output'', content)]))
          else Inl e)"

definition extract_job_fields_try :: "world \<Rightarrow> pystr \<Rightarrow> exn + pyval" where
  "extract_job_fields_try w job_text =
     and_then (chat_content w (fields_request w job_text)) parse_reply"

definition extract_job_fields :: "world \<Rightarrow> pystr \<Rightarrow> pyval \<times> event list" where
  "extract_job_fields w job_text =
     (case extract_job_fields_try w job_text of
        Inr v \<Rightarrow> v
      | Inl e \<Rightarrow> PDict [(py ''error'', PStr (exn_str e))],
      [Call (fields_request w job_text)])"

section \<open>Introduction generation\<close>

definition generate_job_intro_try :: "world \<Rightarrow> pyval \<Rightarrow> exn + pystr" where
  "generate_job_intro_try w job_json =
     and_then (chat_content w (intro_request w job_json)) strip_method"

definition generate_job_intro :: "world \<Rightarrow> pyval \<Rightarrow> pystr \<times> event list" where
  "generate_job_intro w job_json =
     (case generate_job_intro_try w job_json of
        Inr text \<Rightarrow> text
      | Inl e \<Rightarrow> py ''Error generating intro: '' @ exn_str e,
      [Call (intro_request w job_json)])"

section \<open>The interactive shell\<close>

text \<open>
  What the user did before a run of the script: the file in the uploader (its name and
  bytes), and what each \<open>st.button\<close> returns. Streamlit reports a button as pressed only in
  the run its click started; the model takes any combination.
\<close>

record inputs =
  uploaded_file :: "(pystr \<times> nat list) option"
  extract_button :: bool
  audio_button :: bool

definition st_error_read :: "pystr \<Rightarrow> event" where
  "st_error_read job_text = Call (call ''st.error'' [PStr (py ''Failed to read file: '' @ job_text)] [])"

definition st_warning_short :: event where
  "st_warning_short =
     Call (call ''st.warning''
       [PStr ([0xE2, 0x161, 0xA0, 0xEF, 0xB8] @ py '' The job description text seems too short.'')] [])"

definition st_button_extract :: event where
  "st_button_extract =
     Call (call ''st.button'' [PStr ([0xF0, 0x178, 0x201D] @ py '' Extract Job Fields'')] [])"

definition st_button_audio :: event where
  "st_button_audio =
     Call (call ''st.button'' [PStr ([0xF0, 0x178, 0x201D, 0x160] @ py '' Convert to Audio'')] [])"

definition tts_init_call :: pycall where
  "tts_init_call =
     call ''TTS'' []
       [(''model_name'', PStr (py ''tts_models/en/ljspeech/tacotron2-DDC'')),
        (''progress_bar'', PBool False),
        (''gpu'', PBool False)]"

definition tts_to_file_call :: "pystr \<Rightarrow> pycall" where
  "tts_to_file_call job_intro =
     call ''tts.tts_to_file'' []
       [(''text'', PStr job_intro),
        (''file_path'', PStr (os_path_join UPLOAD_PATH (py ''job_intro.wav'')))]"

text \<open>Lines 168 to 174: the conversion to audio, inside its own \<open>try\<close>.\<close>

definition tts_stage :: "world \<Rightarrow> pystr \<Rightarrow> event list" where
  "tts_stage w job_intro =
     (case effect w tts_init_call of
        Some e \<Rightarrow>
          [Call tts_init_call,
           Call (call ''st.error'' [PStr (py ''TTS conversion failed: '' @ exn_str e)] [])]
      | None \<Rightarrow>
          (case effect w (tts_to_file_call job_intro) of
             Some e \<Rightarrow>
               [Call tts_init_call, Call (tts_to_file_call job_intro),
                Call (call ''st.error'' [PStr (py ''TTS conversion failed: '' @ exn_str e)] [])]
           | None \<Rightarrow>
               [Call tts_init_call, Call (tts_to_file_call job_intro),
                Call (call ''st.audio'' [PStr (os_path_join UPLOAD_PATH (py ''job_intro.wav''))] [])]))"

text \<open>Lines 163 to 174: the introduction, then the audio button.\<close>

definition intro_stage :: "world \<Rightarrow> inputs \<Rightarrow> pyval \<Rightarrow> event list" where
  "intro_stage w i job_json =
     (let (job_intro, calls) = generate_job_intro w job_json
      in [Call (call ''st.subheader''
            [PStr ([0xF0, 0x178, 0x17D, 0x2122] @ py '' Generate Job Introduction Script'')] [])]
         @ calls
         @ [Call (call ''st.text_area''
              [PStr (py ''Generated Introduction Script''), PStr job_intro] [(''height'', PInt 150)]),
            st_button_audio]
         @ (if audio_button i then tts_stage w job_intro else []))"

text \<open>
  Lines 158 to 174: the field extraction, then the test \<open>"error" not in job_json\<close>, which
  raises on a value that is not iterable.
\<close>

definition fields_stage :: "world \<Rightarrow> inputs \<Rightarrow> pystr \<Rightarrow> event list" where
  "fields_stage w i job_text =
     (let (job_json, calls) = extract_job_fields w job_text
      in calls
         @ [Call (call ''st.subheader''
              [PStr ([0xF0, 0x178, 0x201C, 0x160] @ py '' Extracted Job Information (JSON)'')] []),
            Call (call ''st.json'' [job_json] [])]
         @ (case py_contains (py ''error'') job_json of
              Inl e \<Rightarrow> [Crash e]
            | Inr True \<Rightarrow> []
            | Inr False \<Rightarrow> intro_stage w i job_json))"

text \<open>Lines 150 to 174: what the shell does with the extracted text.\<close>

definition text_stage :: "world \<Rightarrow> inputs \<Rightarrow> pystr \<Rightarrow> event list" where
  "text_stage w i job_text =
     (if py_startswith job_text (py ''__READ_ERROR__'') then [st_error_read job_text]
      else if length (py_strip job_text) < 50 then [st_warning_short]
      else
        [Call (call ''st.text_area''
           [PStr ([0xF0, 0x178, 0x201C] @ py '' Extracted Text''), PStr job_text] [(''height'', PInt 200)]),
         st_button_extract]
        @ (if extract_button i then fields_stage w i job_text else []))"

definition upload_ext :: "world \<Rightarrow> pystr \<Rightarrow> pystr" where
  "upload_ext w name = str_lower w (split_dot_last name)"

definition upload_path :: "world \<Rightarrow> pystr \<Rightarrow> pystr" where
  "upload_path w name = os_path_join UPLOAD_PATH (py ''jobdesc.'' @ upload_ext w name)"

text \<open>Lines 142 to 174: the uploaded file is written to the scratch path and read back.\<close>

definition upload_stage :: "world \<Rightarrow> inputs \<Rightarrow> pystr \<Rightarrow> nat list \<Rightarrow> event list" where
  "upload_stage w i name content =
     (case write_file w (upload_path w name) content of
        Some e \<Rightarrow> [WriteFile (upload_path w name) content, Crash e]
      | None \<Rightarrow>
          (let (job_text, calls) = extract_text w (upload_path w name) (upload_ext w name)
           in [WriteFile (upload_path w name) content] @ calls @ text_stage w i job_text))"

definition makedirs_call :: pycall where
  "makedirs_call = call ''os.makedirs'' [PStr UPLOAD_PATH] [(''exist_ok'', PBool True)]"

text \<open>
  One run of the script, from its first line: an exception outside every \<open>try\<close> ends the
  run (\<open>Crash\<close>).
\<close>

definition run :: "world \<Rightarrow> inputs \<Rightarrow> event list" where
  "run w i =
     (case effect w makedirs_call of
        Some e \<Rightarrow> [Call makedirs_call, Crash e]
      | None \<Rightarrow>
          [Call makedirs_call,
           Call (call ''st.title''
             [PStr ([0xF0, 0x178, 0x201C, 0x2039]
                    @ py '' Job Description Field Extractor + Audio Intro (Groq LLM)'')] []),
           Call (call ''st.file_uploader''
             [PStr (py ''Upload a Job Description file (PDF, DOCX, or TXT)'')]
             [(''type'', PList [PStr (py ''pdf''), PStr (py ''docx''), PStr (py ''txt'')])])]
          @ (case uploaded_file i of
               None \<Rightarrow> []
             | Some (name, content) \<Rightarrow> upload_stage w i name content))"

text \<open>The requests to the chat-completion API and the text-to-speech calls among events.\<close>

fun is_post :: "event \<Rightarrow> bool" where
  "is_post (Call c) = (func c = ''requests.post'')"
| "is_post _ = False"

fun is_tts :: "event \<Rightarrow> bool" where
  "is_tts (Call c) = (func c = ''TTS'' \<or> func c = ''tts.tts_to_file'')"
| "is_tts _ = False"

definition max_tokens :: "pycall \<Rightarrow> int option" where
  "max_tokens c =
     (case body_field c (py ''max_tokens'') of
        Some (PInt n) \<Rightarrow> Some n
      | _ \<Rightarrow> None)"

text \<open>The \<open>timeout\<close> argument of the call an event is, if it is a call and has one.\<close>

fun event_timeout :: "event \<Rightarrow> pyval option" where
  "event_timeout (Call c) = kwarg c ''timeout''"
| "event_timeout _ = None"

text \<open>The calls of a run that start a stage's work outside the program, in order.\<close>

definition stage_calls :: "event list \<Rightarrow> event list" where
  "stage_calls evs = filter (\<lambda>ev. is_post ev \<or> is_tts ev) evs"

section \<open>Example worlds\<close>

definition ascii_lower :: "pystr \<Rightarrow> pystr" where
  "ascii_lower s = map (\<lambda>c. if 65 \<le> c \<and> c \<le> 90 then c + 32 else c) s"

text \<open>A world in which every file read and every request fails.\<close>

definition offline_world :: world where
  "offline_world =
     \<lparr>api_key = None,
      read_text = (\<lambda>p. Inl (Exn OtherError (py ''boom''))),
      pdf_pages = (\<lambda>p. Inl (Exn OtherError (py ''EOF marker not found''))),
      docx_paragraphs = (\<lambda>p. Inl (Exn OtherError (py ''File is not a zip file''))),
      requests_post = (\<lambda>c. Inl (Exn OtherError (py ''Read timed out. (read timeout=30)''))),
      json_dumps = (\<lambda>v. py ''null''),
      str_lower = ascii_lower,
      write_file = (\<lambda>p b. None),
      effect = (\<lambda>c. None)\<rparr>"

text \<open>The body of a chat-completion response whose first choice has the given content.\<close>

definition chat_body :: "pyval \<Rightarrow> pyval" where
  "chat_body content =
     PDict [(py ''choices'', PList
       [PDict [(py ''index'', PInt 0),
               (py ''message'', PDict [(py ''role'', PStr (py ''assistant'')),
                                        (py ''content'', content)])]])]"

text \<open>
  A world in which every text file reads as \<open>text\<close> and the API answers every request
  with the reply \<open>reply\<close>.
\<close>

definition example_world :: "pystr \<Rightarrow> pystr \<Rightarrow> world" where
  "example_world text reply =
     offline_world
       \<lparr>read_text := (\<lambda>p. Inr text),
        requests_post := (\<lambda>c. Inr \<lparr>raise_for_status = None, json = Inr (chat_body (PStr reply))\<rparr>)\<rparr>"

text \<open>A reply that is a JSON object with all the fields of the prompt, and its value.\<close>

definition full_reply :: pystr where
  \<open>full_reply =
     py ''{"job_title": "Data Engineer",''
     @ py '' "company_name": "Acme",''
     @ py '' "location": "Berlin",''
     @ py '' "employment_type": "Full-time",''
     @ py '' "seniority_level": null,''
     @ py '' "hard_skills": ["SQL", "Python"],''
     @ py '' "soft_skills": [],''
     @ py '' "certifications": [],''
     @ py '' "tools": ["Airflow"],''
     @ py '' "experience": "3 years",''
     @ py '' "education_level": null,''
     @ py '' "duties_and_responsibilities": ["Build pipelines"],''
     @ py '' "preferred_skills": [],''
     @ py '' "communication_skills": null,''
     @ py '' "language": ["English"],''
     @ py '' "salary": null}''\<close>

definition full_record :: pyval where
  "full_record =
     PDict
       [(py ''job_title'', (PStr (py ''Data Engineer''))),
        (py ''company_name'', (PStr (py ''Acme''))),
        (py ''location'', (PStr (py ''Berlin''))),
        (py ''employment_type'', (PStr (py ''Full-time''))),
        (py ''seniority_level'', PNone),
        (py ''hard_skills'', (PList [(PStr (py ''SQL'')), (PStr (py ''Python''))])),
        (py ''soft_skills'', (PList [])),
        (py ''certifications'', (PList [])),
        (py ''tools'', (PList [(PStr (py ''Airflow''))])),
        (py ''experience'', (PStr (py ''3 years''))),
        (py ''education_level'', PNone),
        (py ''duties_and_responsibilities'', (PList [(PStr (py ''Build pipelines''))])),
        (py ''preferred_skills'', (PList [])),
        (py ''communication_skills'', PNone),
        (py ''language'', (PList [(PStr (py ''English''))])),
        (py ''salary'', PNone)]"

text \<open>A job posting of more than fifty characters.\<close>

definition posting :: pystr where
  "posting = py ''We are hiring a Data Engineer in Berlin to build data pipelines.''"

definition upload :: "pystr \<Rightarrow> nat list \<Rightarrow> bool \<Rightarrow> bool \<Rightarrow> inputs" where
  "upload name content b1 b2 =
     \<lparr>uploaded_file = Some (name, content), extract_button = b1, audio_button = b2\<rparr>"

section \<open>Request parameters\<close>

lemma py_simps:
  "py [] = []"
  "py (c # cs) = of_char c # py cs"
  by (simp_all add: py_def)

text \<open>
  C4, as the code has it: the request of \<open>generate_job_intro\<close> has temperature 0.7 and a
  max-token ceiling of 400, and the request of \<open>extract_job_fields\<close> has a ceiling of 1200;
  the ceiling of the introduction is the smaller one.
\<close>

theorem C4_request_parameters:
  "body_field (intro_request w job_json) (py ''temperature'') = Some (PFloat (py ''0.7''))
   \<and> max_tokens (intro_request w job_json) = Some 400
   \<and> max_tokens (fields_request w job_text) = Some 1200"
  by (simp add: intro_request_def fields_request_def body_field_def max_tokens_def
      kwarg_def call_def py_simps)

text \<open>
  C4 as stated fails: the ceiling of the introduction request (400) is not larger than the
  ceiling of the extraction request (1200).
\<close>

theorem C4_counterexample:
  "max_tokens (intro_request offline_world PNone) = Some 400
   \<and> max_tokens (fields_request offline_world (py ''Senior data engineer'')) = Some 1200
   \<and> \<not> the (max_tokens (fields_request offline_world (py ''Senior data engineer'')))
         < the (max_tokens (intro_request offline_world PNone))"
  by (simp add: intro_request_def fields_request_def body_field_def max_tokens_def
      kwarg_def call_def py_simps)

section \<open>Properties of text extraction\<close>

text \<open>
  C8: for a type tag other than \<open>pdf\<close>, \<open>docx\<close> and \<open>txt\<close>, \<open>extract_text\<close> returns the
  empty string in every world, makes no call on the file, and the result does not carry
  the error marker.
\<close>

theorem C8_unsupported_type:
  assumes "file_type \<noteq> py ''pdf''" and "file_type \<noteq> py ''docx''" and "file_type \<noteq> py ''txt''"
  shows "extract_text w file_path file_type = ([], [])
         \<and> \<not> py_startswith (fst (extract_text w file_path file_type)) (py ''__READ_ERROR__'')"
  using assms
  by (simp add: extract_text_def extract_text_try_def extract_text_calls_def py_strip_def
      py_startswith_def py_simps)

theorem C8_witness:
  "py ''md'' \<noteq> py ''pdf'' \<and> py ''md'' \<noteq> py ''docx'' \<and> py ''md'' \<noteq> py ''txt''
   \<and> extract_text offline_world (py ''__DATA__/jobdesc.md'') (py ''md'') = ([], [])"
proof -
  have a: "py ''md'' \<noteq> py ''pdf''" and b: "py ''md'' \<noteq> py ''docx''" and c: "py ''md'' \<noteq> py ''txt''"
    by (simp_all add: py_simps)
  from C8_unsupported_type [OF a b c, of offline_world "py ''__DATA__/jobdesc.md''"] a b c
  show ?thesis by blast
qed

section \<open>Timeouts\<close>

text \<open>
  C7: the one call \<open>extract_job_fields\<close> issues and the one call \<open>generate_job_intro\<close>
  issues are calls of \<open>requests.post\<close> with \<open>timeout=30\<close>; the calls of the text-to-speech
  stage are the construction of the engine and \<open>tts_to_file\<close>, and no call of that stage
  has a timeout argument.
\<close>

theorem C7_timeouts:
  "snd (extract_job_fields w job_text) = [Call (fields_request w job_text)]
   \<and> func (fields_request w job_text) = ''requests.post''
   \<and> kwarg (fields_request w job_text) ''timeout'' = Some (PInt 30)
   \<and> snd (generate_job_intro w job_json) = [Call (intro_request w job_json)]
   \<and> func (intro_request w job_json) = ''requests.post''
   \<and> kwarg (intro_request w job_json) ''timeout'' = Some (PInt 30)
   \<and> set (filter is_tts (tts_stage w job_intro))
       \<subseteq> {Call tts_init_call, Call (tts_to_file_call job_intro)}
   \<and> kwarg tts_init_call ''timeout'' = None
   \<and> kwarg (tts_to_file_call job_intro) ''timeout'' = None
   \<and> set (map event_timeout (tts_stage w job_intro)) \<subseteq> {None}"
proof -
  have none: "set (map event_timeout (tts_stage w job_intro)) \<subseteq> {None}"
    by (auto simp: tts_stage_def tts_init_call_def tts_to_file_call_def kwarg_def call_def
        split: option.splits)
  have tts: "set (filter is_tts (tts_stage w job_intro))
             \<subseteq> {Call tts_init_call, Call (tts_to_file_call job_intro)}"
    by (auto simp: tts_stage_def call_def split: option.splits)
  have rest:
    "snd (extract_job_fields w job_text) = [Call (fields_request w job_text)]"
    "func (fields_request w job_text) = ''requests.post''"
    "kwarg (fields_request w job_text) ''timeout'' = Some (PInt 30)"
    "snd (generate_job_intro w job_json) = [Call (intro_request w job_json)]"
    "func (intro_request w job_json) = ''requests.post''"
    "kwarg (intro_request w job_json) ''timeout'' = Some (PInt 30)"
    "kwarg tts_init_call ''timeout'' = None"
    "kwarg (tts_to_file_call job_intro) ''timeout'' = None"
    by (simp_all add: extract_job_fields_def generate_job_intro_def fields_request_def
        intro_request_def tts_init_call_def tts_to_file_call_def kwarg_def call_def)
  from tts rest none show ?thesis by blast
qed

section \<open>Failures of the external calls\<close>

lemma chat_content_post_fails:
  "requests_post w c = Inl e \<Longrightarrow> chat_content w c = Inl e"
  by (simp add: chat_content_def)

lemma chat_content_status_fails:
  "requests_post w c = Inr r \<Longrightarrow> raise_for_status r = Some e \<Longrightarrow> chat_content w c = Inl e"
  by (simp add: chat_content_def)

lemma chat_content_json_fails:
  "requests_post w c = Inr r \<Longrightarrow> raise_for_status r = None \<Longrightarrow> json r = Inl e
   \<Longrightarrow> chat_content w c = Inl e"
  by (simp add: chat_content_def)

lemma fields_error_record:
  "chat_content w (fields_request w job_text) = Inl e
   \<Longrightarrow> fst (extract_job_fields w job_text) = PDict [(py ''error'', PStr (exn_str e))]"
  by (simp add: extract_job_fields_def extract_job_fields_try_def)

lemma intro_error_string:
  "chat_content w (intro_request w job_json) = Inl e
   \<Longrightarrow> fst (generate_job_intro w job_json) = py ''Error generating intro: '' @ exn_str e"
  by (simp add: generate_job_intro_def generate_job_intro_try_def)

text \<open>
  C2: the three functions are total functions into plain values (a string, a value, a
  string): no exception leaves them. What they do before their \<open>try\<close> (building the
  prompt from a string, and \<open>json.dumps\<close> of a JSON value) does not raise. Every exception
  raised inside the \<open>try\<close> of one of them comes back as its descriptive value, and so does
  in particular every failure of the wrapped external call: of the file library for each
  supported type, and of the request, of \<open>raise_for_status\<close> and of \<open>response.json()\<close>
  for the two clients.
\<close>

theorem C2_failures_are_values:
  "(extract_text_try w p ft = Inl e \<longrightarrow>
      fst (extract_text w p ft) = py ''__READ_ERROR__:'' @ exn_str e
      \<and> py_startswith (fst (extract_text w p ft)) (py ''__READ_ERROR__''))
   \<and> (pdf_pages w p = Inl e \<longrightarrow>
        fst (extract_text w p (py ''pdf'')) = py ''__READ_ERROR__:'' @ exn_str e)
   \<and> (docx_paragraphs w p = Inl e \<longrightarrow>
        fst (extract_text w p (py ''docx'')) = py ''__READ_ERROR__:'' @ exn_str e)
   \<and> (read_text w p = Inl e \<longrightarrow>
        fst (extract_text w p (py ''txt'')) = py ''__READ_ERROR__:'' @ exn_str e)
   \<and> (extract_job_fields_try w job_text = Inl e \<longrightarrow>
        fst (extract_job_fields w job_text) = PDict [(py ''error'', PStr (exn_str e))])
   \<and> (requests_post w (fields_request w job_text) = Inl e
        \<or> (\<exists>r. requests_post w (fields_request w job_text) = Inr r
               \<and> (raise_for_status r = Some e \<or> raise_for_status r = None \<and> json r = Inl e)) \<longrightarrow>
        fst (extract_job_fields w job_text) = PDict [(py ''error'', PStr (exn_str e))])
   \<and> (generate_job_intro_try w job_json = Inl e \<longrightarrow>
        fst (generate_job_intro w job_json) = py ''Error generating intro: '' @ exn_str e)
   \<and> (requests_post w (intro_request w job_json) = Inl e
        \<or> (\<exists>r. requests_post w (intro_request w job_json) = Inr r
               \<and> (raise_for_status r = Some e \<or> raise_for_status r = None \<and> json r = Inl e)) \<longrightarrow>
        fst (generate_job_intro w job_json) = py ''Error generating intro: '' @ exn_str e)"
proof -
  have t1: "extract_text_try w p ft = Inl e \<longrightarrow>
      fst (extract_text w p ft) = py ''__READ_ERROR__:'' @ exn_str e
      \<and> py_startswith (fst (extract_text w p ft)) (py ''__READ_ERROR__'')"
    by (simp add: extract_text_def py_startswith_def py_simps)
  have t2: "pdf_pages w p = Inl e \<longrightarrow>
        fst (extract_text w p (py ''pdf'')) = py ''__READ_ERROR__:'' @ exn_str e"
    by (simp add: extract_text_def extract_text_try_def)
  have t3: "docx_paragraphs w p = Inl e \<longrightarrow>
        fst (extract_text w p (py ''docx'')) = py ''__READ_ERROR__:'' @ exn_str e"
    by (simp add: extract_text_def extract_text_try_def py_simps)
  have t4: "read_text w p = Inl e \<longrightarrow>
        fst (extract_text w p (py ''txt'')) = py ''__READ_ERROR__:'' @ exn_str e"
    by (simp add: extract_text_def extract_text_try_def py_simps)
  have f1: "extract_job_fields_try w job_text = Inl e \<longrightarrow>
        fst (extract_job_fields w job_text) = PDict [(py ''error'', PStr (exn_str e))]"
    by (simp add: extract_job_fields_def)
  have f2: "requests_post w (fields_request w job_text) = Inl e
        \<or> (\<exists>r. requests_post w (fields_request w job_text) = Inr r
               \<and> (raise_for_status r = Some e \<or> raise_for_status r = None \<and> json r = Inl e)) \<longrightarrow>
        fst (extract_job_fields w job_text) = PDict [(py ''error'', PStr (exn_str e))]"
    using chat_content_post_fails chat_content_status_fails chat_content_json_fails
      fields_error_record by blast
  have g1: "generate_job_intro_try w job_json = Inl e \<longrightarrow>
        fst (generate_job_intro w job_json) = py ''Error generating intro: '' @ exn_str e"
    by (simp add: generate_job_intro_def)
  have g2: "requests_post w (intro_request w job_json) = Inl e
        \<or> (\<exists>r. requests_post w (intro_request w job_json) = Inr r
               \<and> (raise_for_status r = Some e \<or> raise_for_status r = None \<and> json r = Inl e)) \<longrightarrow>
        fst (generate_job_intro w job_json) = py ''Error generating intro: '' @ exn_str e"
    using chat_content_post_fails chat_content_status_fails chat_content_json_fails
      intro_error_string by blast
  from t1 t2 t3 t4 f1 f2 g1 g2 show ?thesis by blast
qed

text \<open>In the world where every external call fails, each function returns its error value.\<close>

theorem C2_witness:
  "read_text offline_world (py ''__DATA__/jobdesc.txt'') = Inl (Exn OtherError (py ''boom''))
   \<and> fst (extract_text offline_world (py ''__DATA__/jobdesc.txt'') (py ''txt''))
       = py ''__READ_ERROR__:boom''
   \<and> requests_post offline_world (fields_request offline_world (py ''Senior data engineer''))
       = Inl (Exn OtherError (py ''Read timed out. (read timeout=30)''))
   \<and> fst (extract_job_fields offline_world (py ''Senior data engineer''))
       = PDict [(py ''error'', PStr (py ''Read timed out. (read timeout=30)''))]
   \<and> requests_post offline_world (intro_request offline_world (PDict []))
       = Inl (Exn OtherError (py ''Read timed out. (read timeout=30)''))
   \<and> fst (generate_job_intro offline_world (PDict []))
       = py ''Error generating intro: Read timed out. (read timeout=30)''"
proof -
  let ?e1 = "Exn OtherError (py ''boom'')"
  let ?e2 = "Exn OtherError (py ''Read timed out. (read timeout=30)'')"
  have r: "read_text offline_world (py ''__DATA__/jobdesc.txt'') = Inl ?e1"
    by (simp add: offline_world_def)
  have p1: "requests_post offline_world (fields_request offline_world (py ''Senior data engineer''))
            = Inl ?e2"
    by (simp add: offline_world_def)
  have p2: "requests_post offline_world (intro_request offline_world (PDict [])) = Inl ?e2"
    by (simp add: offline_world_def)
  have a: "fst (extract_text offline_world (py ''__DATA__/jobdesc.txt'') (py ''txt''))
           = py ''__READ_ERROR__:'' @ exn_str ?e1"
    using C2_failures_are_values [of offline_world "py ''__DATA__/jobdesc.txt''" "py ''txt''" ?e1] r
    by blast
  have b: "fst (extract_job_fields offline_world (py ''Senior data engineer''))
           = PDict [(py ''error'', PStr (exn_str ?e2))]"
    using C2_failures_are_values [of offline_world _ _ ?e2 "py ''Senior data engineer''"] p1
    by blast
  have c: "fst (generate_job_intro offline_world (PDict []))
           = py ''Error generating intro: '' @ exn_str ?e2"
    using C2_failures_are_values [of offline_world _ _ ?e2 _ "PDict []"] p2
    by blast
  from r p1 p2 a b c show ?thesis by (simp add: py_simps)
qed

section \<open>The parsing policy of the field extractor\<close>

lemmas json_eval = json_loads_def tokenize.simps scanstring.simps scan_atom_def match_number_def
  int_of_lexeme_def is_digit_def escape_char_def hexval_def json_error_def py_dec.simps py_simps
  msg_unterminated_def msg_uxxxx_def msg_escape_def msg_control_def msg_value_def msg_name_def
  msg_colon_def msg_comma_def msg_extra_def msg_bom_def Let_def

lemma json_loads_error_class: "json_loads s = Inl e \<Longrightarrow> exn_cls e = JSONDecodeError"
  by (auto simp: json_loads_def json_error_def split: if_splits sum.splits prod.splits)

lemma parse_reply_strict: "json_loads reply = Inr v \<Longrightarrow> parse_reply (PStr reply) = Inr v"
  by (simp add: parse_reply_def)

lemma parse_reply_recover:
  "json_loads reply = Inl e \<Longrightarrow> re_search_braces reply = Some m
   \<Longrightarrow> parse_reply (PStr reply) = json_loads m"
  by (simp add: parse_reply_def json_loads_error_class)

lemma parse_reply_no_braces:
  "json_loads reply = Inl e \<Longrightarrow> re_search_braces reply = None
   \<Longrightarrow> parse_reply (PStr reply)
       = Inr (PDict [(py ''error'', PStr (py ''No valid JSON detected'')),
                     (py ''raw_output'', PStr reply)])"
  by (simp add: parse_reply_def json_loads_error_class)

lemma chat_content_example:
  "chat_content (example_world text reply) c = Inr (PStr reply)"
  by (simp add: chat_content_def example_world_def offline_world_def chat_body_def py_simps)

text \<open>
  C1, as the code has it. When the API answers with the string \<open>reply\<close>:
  \<^item> if \<open>reply\<close> is JSON, the result is its value;
  \<^item> otherwise, if \<open>reply\<close> has an opening brace with a closing brace after it, the span
    \<open>m\<close> from the first opening brace to the last closing brace is parsed: the result is
    its value, or, when \<open>m\<close> is not JSON either, a record with the one field \<open>error\<close>
    holding the decoder's message (the raw reply is not in it);
  \<^item> otherwise the result is the record with the fields \<open>error\<close> and \<open>raw_output\<close>, the
    latter holding the reply.
\<close>

theorem C1_parse_policy:
  assumes "chat_content w (fields_request w job_text) = Inr (PStr reply)"
  shows
    "(json_loads reply = Inr v \<longrightarrow> fst (extract_job_fields w job_text) = v)
     \<and> (json_loads reply = Inl e \<and> re_search_braces reply = Some m \<and> json_loads m = Inr v \<longrightarrow>
          fst (extract_job_fields w job_text) = v)
     \<and> (json_loads reply = Inl e \<and> re_search_braces reply = Some m \<and> json_loads m = Inl e' \<longrightarrow>
          fst (extract_job_fields w job_text) = PDict [(py ''error'', PStr (exn_str e'))])
     \<and> (json_loads reply = Inl e \<and> re_search_braces reply = None \<longrightarrow>
          fst (extract_job_fields w job_text)
            = PDict [(py ''error'', PStr (py ''No valid JSON detected'')),
                     (py ''raw_output'', PStr reply)])"
  using assms
  by (auto simp: extract_job_fields_def extract_job_fields_try_def parse_reply_strict
      parse_reply_recover parse_reply_no_braces)

lemma prose_reply_not_json:
  \<open>json_loads (py ''Sure! {"job_title": "Data Engineer"} Hope this helps.'')
   = Inl (Exn JSONDecodeError (py ''Expecting value: line 1 column 1 (char 0)''))\<close>
  by (simp add: json_eval)

lemma prose_reply_braces:
  \<open>re_search_braces (py ''Sure! {"job_title": "Data Engineer"} Hope this helps.'')
   = Some (py ''{"job_title": "Data Engineer"}'')\<close>
  by (simp add: re_search_braces_def py_simps)

lemma prose_reply_object:
  \<open>json_loads (py ''{"job_title": "Data Engineer"}'')
   = Inr (PDict [(py ''job_title'', PStr (py ''Data Engineer''))])\<close>
  by (simp add: json_eval)

text \<open>A reply with the object inside prose: the object is recovered.\<close>

theorem C1_witness:
  \<open>chat_content
     (example_world [] (py ''Sure! {"job_title": "Data Engineer"} Hope this helps.''))
     (fields_request
        (example_world [] (py ''Sure! {"job_title": "Data Engineer"} Hope this helps.''))
        (py ''We are hiring a Data Engineer.''))
   = Inr (PStr (py ''Sure! {"job_title": "Data Engineer"} Hope this helps.''))
   \<and> fst (extract_job_fields
         (example_world [] (py ''Sure! {"job_title": "Data Engineer"} Hope this helps.''))
         (py ''We are hiring a Data Engineer.''))
     = PDict [(py ''job_title'', PStr (py ''Data Engineer''))]\<close>
  using C1_parse_policy [OF chat_content_example,
      of \<open>py ''Sure! {"job_title": "Data Engineer"} Hope this helps.''\<close>
         \<open>PDict [(py ''job_title'', PStr (py ''Data Engineer''))]\<close>
         "[]" \<open>py ''We are hiring a Data Engineer.''\<close>
         \<open>Exn JSONDecodeError (py ''Expecting value: line 1 column 1 (char 0)'')\<close>
         \<open>py ''{"job_title": "Data Engineer"}''\<close>]
    chat_content_example prose_reply_not_json prose_reply_braces prose_reply_object
  by blast

lemma broken_reply_not_json:
  \<open>json_loads (py ''{oops}'')
   = Inl (Exn JSONDecodeError
       (py ''Expecting property name enclosed in double quotes: line 1 column 2 (char 1)''))\<close>
  by (simp add: json_eval)

lemma broken_reply_braces: \<open>re_search_braces (py ''{oops}'') = Some (py ''{oops}'')\<close>
  by (simp add: re_search_braces_def py_simps)

text \<open>
  C1 as stated fails on the reply \<open>{oops}\<close>: it is not JSON, its brace-delimited
  substring is not JSON, and the record returned has the error field only, without the raw
  reply.
\<close>

theorem C1_counterexample:
  \<open>fst (extract_job_fields (example_world [] (py ''{oops}'')) (py ''We are hiring.''))
   = PDict [(py ''error'', PStr
       (py ''Expecting property name enclosed in double quotes: line 1 column 2 (char 1)''))]
   \<and> dict_get [(py ''error'', PStr
       (py ''Expecting property name enclosed in double quotes: line 1 column 2 (char 1)''))]
       (py ''raw_output'') = None\<close>
proof -
  have \<open>parse_reply (PStr (py ''{oops}''))
        = Inl (Exn JSONDecodeError
            (py ''Expecting property name enclosed in double quotes: line 1 column 2 (char 1)''))\<close>
    using parse_reply_recover [OF broken_reply_not_json broken_reply_braces] broken_reply_not_json
    by simp
  then show ?thesis
    by (simp add: extract_job_fields_def extract_job_fields_try_def chat_content_example py_simps)
qed

section \<open>The brace recovery is greedy\<close>

lemma re_search_braces_span:
  assumes "re_search_braces s = Some m"
  shows "\<exists>a b. s = a @ m @ b \<and> 123 \<notin> set a \<and> 125 \<notin> set b \<and> hd m = 123 \<and> last m = 125"
proof -
  let ?a = "takeWhile (\<lambda>c. c \<noteq> 123) s"
  let ?t = "dropWhile (\<lambda>c. c \<noteq> 123) s"
  let ?b = "rev (takeWhile (\<lambda>c. c \<noteq> 125) (rev ?t))"
  from assms have in_t: "125 \<in> set ?t" and m: "m = rev (dropWhile (\<lambda>c. c \<noteq> 125) (rev ?t))"
    by (auto simp: re_search_braces_def Let_def split: if_splits)
  have s: "s = ?a @ ?t" by simp
  have "rev (takeWhile (\<lambda>c. c \<noteq> 125) (rev ?t) @ dropWhile (\<lambda>c. c \<noteq> 125) (rev ?t)) = ?t"
    by (simp only: takeWhile_dropWhile_id rev_rev_ident)
  then have t: "?t = m @ ?b" using m by (simp only: rev_append)
  have a_free: "123 \<notin> set ?a" by (auto dest: set_takeWhileD)
  have b_free: "125 \<notin> set ?b" by (auto dest: set_takeWhileD)
  have d_ne: "dropWhile (\<lambda>c. c \<noteq> 125) (rev ?t) \<noteq> []"
    using in_t by (simp add: dropWhile_eq_Nil_conv)
  then have m_ne: "m \<noteq> []" using m by simp
  have "hd (dropWhile (\<lambda>c. c \<noteq> 125) (rev ?t)) = 125"
    using hd_dropWhile [OF d_ne] by simp
  then have last_m: "last m = 125" using m d_ne by (simp add: last_rev)
  have t_ne: "?t \<noteq> []" using in_t by (metis empty_iff list.set(1))
  have "hd ?t = 123" using hd_dropWhile [OF t_ne] by simp
  moreover have "hd ?t = hd m" using t m_ne by (metis hd_append2)
  ultimately have hd_m: "hd m = 123" by simp
  from s t have "s = ?a @ m @ ?b" by simp
  with a_free b_free hd_m last_m show ?thesis by blast
qed

lemma re_search_braces_none:
  "re_search_braces s = None \<longleftrightarrow> 125 \<notin> set (dropWhile (\<lambda>c. c \<noteq> 123) s)"
  by (simp add: re_search_braces_def Let_def)


lemma trailing_reply_object:
  \<open>json_loads (py ''{"job_title": "Data Engineer"}'')
   = Inr (PDict [(py ''job_title'', PStr (py ''Data Engineer''))])\<close>
  by (simp add: json_eval)

lemma trailing_reply_not_json:
  \<open>json_loads (py ''{"job_title": "Data Engineer"}'' @ py '' (fields marked {} are unknown)'')
   = Inl (Exn JSONDecodeError (py ''Extra data: line 1 column 32 (char 31)''))\<close>
  by (simp add: json_eval)

lemma trailing_reply_braces:
  \<open>re_search_braces
     (py ''{"job_title": "Data Engineer"}'' @ py '' (fields marked {} are unknown)'')
   = Some (py ''{"job_title": "Data Engineer"} (fields marked {}'')\<close>
  by (simp add: re_search_braces_def py_simps)

lemma trailing_reply_span_not_json:
  \<open>json_loads (py ''{"job_title": "Data Engineer"} (fields marked {}'')
   = Inl (Exn JSONDecodeError (py ''Extra data: line 1 column 32 (char 31)''))\<close>
  by (simp add: json_eval)

lemma trailing_reply_result:
  \<open>fst (extract_job_fields
       (example_world []
          (py ''{"job_title": "Data Engineer"}'' @ py '' (fields marked {} are unknown)''))
       (py ''We are hiring a Data Engineer.''))
   = PDict [(py ''error'', PStr (py ''Extra data: line 1 column 32 (char 31)''))]\<close>
proof -
  have \<open>parse_reply
          (PStr (py ''{"job_title": "Data Engineer"}'' @ py '' (fields marked {} are unknown)''))
        = Inl (Exn JSONDecodeError (py ''Extra data: line 1 column 32 (char 31)''))\<close>
    using parse_reply_recover [OF trailing_reply_not_json trailing_reply_braces]
      trailing_reply_span_not_json
    by simp
  then show ?thesis
    by (simp add: extract_job_fields_def extract_job_fields_try_def chat_content_example)
qed

text \<open>
  C10: the substring the recovery selects runs from the first opening brace to the last
  closing brace (nothing before it has an opening brace, nothing after it a closing one),
  and there is none exactly when no closing brace follows the first opening one. For the
  reply made of the object \<open>{"job_title": "Data Engineer"}\<close> and the prose
  \<open> (fields marked {} are unknown)\<close>, the object is JSON, the prose has a later closing
  brace, the reply and the recovered substring are not JSON, and the function returns an
  error record and not the object.
\<close>

theorem C10_greedy_recovery:
  \<open>(re_search_braces s = Some m \<longrightarrow>
      (\<exists>a b. s = a @ m @ b \<and> 123 \<notin> set a \<and> 125 \<notin> set b \<and> hd m = 123 \<and> last m = 125))
   \<and> (re_search_braces s = None \<longleftrightarrow> 125 \<notin> set (dropWhile (\<lambda>c. c \<noteq> 123) s))
   \<and> json_loads (py ''{"job_title": "Data Engineer"}'')
       = Inr (PDict [(py ''job_title'', PStr (py ''Data Engineer''))])
   \<and> 125 \<in> set (py '' (fields marked {} are unknown)'')
   \<and> json_loads (py ''{"job_title": "Data Engineer"}'' @ py '' (fields marked {} are unknown)'')
       = Inl (Exn JSONDecodeError (py ''Extra data: line 1 column 32 (char 31)''))
   \<and> re_search_braces
        (py ''{"job_title": "Data Engineer"}'' @ py '' (fields marked {} are unknown)'')
       = Some (py ''{"job_title": "Data Engineer"} (fields marked {}'')
   \<and> json_loads (py ''{"job_title": "Data Engineer"} (fields marked {}'')
       = Inl (Exn JSONDecodeError (py ''Extra data: line 1 column 32 (char 31)''))
   \<and> fst (extract_job_fields
         (example_world []
            (py ''{"job_title": "Data Engineer"}'' @ py '' (fields marked {} are unknown)''))
         (py ''We are hiring a Data Engineer.''))
       = PDict [(py ''error'', PStr (py ''Extra data: line 1 column 32 (char 31)''))]
   \<and> PDict [(py ''error'', PStr (py ''Extra data: line 1 column 32 (char 31)''))]
       \<noteq> PDict [(py ''job_title'', PStr (py ''Data Engineer''))]\<close>
proof -
  have in_prose: \<open>125 \<in> set (py '' (fields marked {} are unknown)'')\<close>
    by (simp add: py_simps)
  have differ: \<open>PDict [(py ''error'', PStr (py ''Extra data: line 1 column 32 (char 31)''))]
       \<noteq> PDict [(py ''job_title'', PStr (py ''Data Engineer''))]\<close>
    by (simp add: py_simps)
  from re_search_braces_span [of s m] re_search_braces_none [of s] trailing_reply_object in_prose
    trailing_reply_not_json trailing_reply_braces trailing_reply_span_not_json
    trailing_reply_result differ
  show ?thesis by blast
qed

text \<open>On a reply with two objects the recovered substring spans both.\<close>

theorem C10_witness:
  \<open>re_search_braces (py ''first {"a": 1} then {"b": 2} end'') = Some (py ''{"a": 1} then {"b": 2}'')
   \<and> (\<exists>a b. py ''first {"a": 1} then {"b": 2} end'' = a @ py ''{"a": 1} then {"b": 2}'' @ b
          \<and> 123 \<notin> set a \<and> 125 \<notin> set b
          \<and> hd (py ''{"a": 1} then {"b": 2}'') = 123 \<and> last (py ''{"a": 1} then {"b": 2}'') = 125)\<close>
proof -
  have m: \<open>re_search_braces (py ''first {"a": 1} then {"b": 2} end'')
           = Some (py ''{"a": 1} then {"b": 2}'')\<close>
    by (simp add: re_search_braces_def py_simps)
  from C10_greedy_recovery [of \<open>py ''first {"a": 1} then {"b": 2} end''\<close>
      \<open>py ''{"a": 1} then {"b": 2}''\<close>] m
  show ?thesis by blast
qed

section \<open>The sixteen fields\<close>

lemma dict_get_keys: "k \<in> set (dict_keys d) \<Longrightarrow> \<exists>v. dict_get d k = Some v"
  by (induction d) (fastforce simp: dict_keys_def)+

lemma listed_fields_prompt:
  "listed_fields prompt_lines =
     [py ''job_title'',
      py ''company_name'',
      py ''location'',
      py ''employment_type'',
      py ''seniority_level'',
      py ''hard_skills'',
      py ''soft_skills'',
      py ''certifications'',
      py ''tools'',
      py ''experience'',
      py ''education_level'',
      py ''duties_and_responsibilities'',
      py ''preferred_skills'',
      py ''communication_skills'',
      py ''language'',
      py ''salary'']"
  by (simp add: listed_fields_def prompt_lines_def py_startswith_def py_simps)

text \<open>
  C6: the prompt of \<open>extract_job_fields\<close>, which is the content of the one message of its
  request, enumerates exactly sixteen fields, all different; and when the reply is a JSON
  object with all of them, the function returns that object, in which each of the sixteen
  keys has a value.
\<close>

theorem C6_sixteen_fields:
  "listed_fields prompt_lines =
     [py ''job_title'',
      py ''company_name'',
      py ''location'',
      py ''employment_type'',
      py ''seniority_level'',
      py ''hard_skills'',
      py ''soft_skills'',
      py ''certifications'',
      py ''tools'',
      py ''experience'',
      py ''education_level'',
      py ''duties_and_responsibilities'',
      py ''preferred_skills'',
      py ''communication_skills'',
      py ''language'',
      py ''salary'']
   \<and> length (listed_fields prompt_lines) = 16
   \<and> distinct (listed_fields prompt_lines)
   \<and> extraction_prompt job_text
       = [10] @ concat (map (\<lambda>l. l @ [10]) prompt_lines)
         @ [34, 34, 34] @ job_text @ [34, 34, 34] @ [10]
   \<and> body_field (fields_request w job_text) (py ''messages'')
       = Some (PList [PDict [(py ''role'', PStr (py ''user'')),
                             (py ''content'', PStr (extraction_prompt job_text))]])
   \<and> (chat_content w (fields_request w job_text) = Inr (PStr reply)
        \<and> json_loads reply = Inr (PDict d)
        \<and> set (listed_fields prompt_lines) \<subseteq> set (dict_keys d) \<longrightarrow>
        fst (extract_job_fields w job_text) = PDict d
        \<and> list_all (\<lambda>k. \<exists>v. dict_get d k = Some v) (listed_fields prompt_lines))"
proof -
  have n: "length (listed_fields prompt_lines) = 16"
    by (simp add: listed_fields_prompt)
  have dis: "distinct (listed_fields prompt_lines)"
    by (simp add: listed_fields_prompt py_simps)
  have msg: "body_field (fields_request w job_text) (py ''messages'')
       = Some (PList [PDict [(py ''role'', PStr (py ''user'')),
                             (py ''content'', PStr (extraction_prompt job_text))]])"
    by (simp add: fields_request_def body_field_def kwarg_def call_def py_simps)
  have res: "chat_content w (fields_request w job_text) = Inr (PStr reply)
        \<and> json_loads reply = Inr (PDict d)
        \<and> set (listed_fields prompt_lines) \<subseteq> set (dict_keys d) \<longrightarrow>
        fst (extract_job_fields w job_text) = PDict d
        \<and> list_all (\<lambda>k. \<exists>v. dict_get d k = Some v) (listed_fields prompt_lines)"
  proof
    assume h: "chat_content w (fields_request w job_text) = Inr (PStr reply)
        \<and> json_loads reply = Inr (PDict d)
        \<and> set (listed_fields prompt_lines) \<subseteq> set (dict_keys d)"
    then have "fst (extract_job_fields w job_text) = PDict d"
      by (simp add: extract_job_fields_def extract_job_fields_try_def parse_reply_strict)
    moreover from h have "list_all (\<lambda>k. \<exists>v. dict_get d k = Some v) (listed_fields prompt_lines)"
      unfolding list_all_iff using dict_get_keys by blast
    ultimately show "fst (extract_job_fields w job_text) = PDict d
        \<and> list_all (\<lambda>k. \<exists>v. dict_get d k = Some v) (listed_fields prompt_lines)"
      by blast
  qed
  have ep: "extraction_prompt job_text
       = [10] @ concat (map (\<lambda>l. l @ [10]) prompt_lines)
         @ [34, 34, 34] @ job_text @ [34, 34, 34] @ [10]"
    by (simp only: extraction_prompt_def)
  from listed_fields_prompt n dis ep msg res show ?thesis
    by blast
qed

lemma full_reply_value: "json_loads full_reply = Inr full_record"
  by (simp add: full_reply_def full_record_def json_eval)

lemma full_record_keys:
  "\<exists>d. full_record = PDict d \<and> set (listed_fields prompt_lines) \<subseteq> set (dict_keys d)"
  by (simp add: full_record_def listed_fields_prompt dict_keys_def)

text \<open>The reply \<open>full_reply\<close> has all sixteen fields, and the function returns its record.\<close>

theorem C6_witness:
  "chat_content (example_world [] full_reply)
     (fields_request (example_world [] full_reply) (py ''We are hiring a Data Engineer.''))
   = Inr (PStr full_reply)
   \<and> json_loads full_reply = Inr full_record
   \<and> fst (extract_job_fields (example_world [] full_reply) (py ''We are hiring a Data Engineer.''))
     = full_record"
proof -
  from full_record_keys obtain d where
    d: "full_record = PDict d" and keys: "set (listed_fields prompt_lines) \<subseteq> set (dict_keys d)"
    by blast
  from C6_sixteen_fields [where w = "example_world [] full_reply"
      and job_text = "py ''We are hiring a Data Engineer.''" and reply = full_reply and d = d]
    chat_content_example full_reply_value d keys
  show ?thesis by (simp add: chat_content_example)
qed

section \<open>The order of the stages\<close>


lemma call_sel:
  "func (call f a k) = f"
  "args (call f a k) = a"
  "kwargs (call f a k) = k"
  by (simp_all add: call_def)

lemma stage_calls_tts:
  "stage_calls (tts_stage w job_intro) = [Call tts_init_call]
   \<or> stage_calls (tts_stage w job_intro) = [Call tts_init_call, Call (tts_to_file_call job_intro)]"
  by (simp add: tts_stage_def stage_calls_def tts_init_call_def tts_to_file_call_def
      call_sel split: option.splits)

lemma stage_calls_intro:
  "stage_calls (intro_stage w i job_json) =
     Call (intro_request w job_json)
     # (if audio_button i then stage_calls (tts_stage w (fst (generate_job_intro w job_json)))
        else [])"
  by (simp add: intro_stage_def stage_calls_def generate_job_intro_def intro_request_def
      st_button_audio_def call_sel)

lemma stage_calls_fields:
  "stage_calls (fields_stage w i job_text) =
     Call (fields_request w job_text)
     # (if py_contains (py ''error'') (fst (extract_job_fields w job_text)) = Inr False
        then stage_calls (intro_stage w i (fst (extract_job_fields w job_text)))
        else [])"
  by (simp add: fields_stage_def stage_calls_def extract_job_fields_def fields_request_def
      call_sel split: sum.splits bool.splits)

lemma stage_calls_text:
  "stage_calls (text_stage w i job_text) =
     (if \<not> py_startswith job_text (py ''__READ_ERROR__'') \<and> 50 \<le> length (py_strip job_text)
         \<and> extract_button i
      then stage_calls (fields_stage w i job_text) else [])"
  by (simp add: text_stage_def stage_calls_def st_error_read_def st_warning_short_def
      st_button_extract_def call_sel)

lemma stage_calls_extract_text: "stage_calls (snd (extract_text w p ft)) = []"
  by (simp add: extract_text_def extract_text_calls_def stage_calls_def call_sel)

lemma stage_calls_upload:
  "stage_calls (upload_stage w i name content) =
     (if write_file w (upload_path w name) content = None
      then stage_calls (text_stage w i (fst (extract_text w (upload_path w name) (upload_ext w name))))
      else [])"
  using stage_calls_extract_text [of w "upload_path w name" "upload_ext w name"]
  by (cases "write_file w (upload_path w name) content")
     (simp_all add: upload_stage_def stage_calls_def split_beta)

lemma stage_calls_run:
  "stage_calls (run w i) =
     (case uploaded_file i of
        None \<Rightarrow> []
      | Some (name, content) \<Rightarrow>
          if effect w makedirs_call = None then stage_calls (upload_stage w i name content) else [])"
  by (cases "effect w makedirs_call"; cases "uploaded_file i")
     (simp_all add: run_def stage_calls_def makedirs_call_def call_sel split_beta)

text \<open>
  C5, as the code has it. In every run, the calls that start a stage's work outside the
  program (the two requests and the two text-to-speech calls) come in this order and under
  these conditions:
  \<^item> the field-extraction request is issued only when a file is uploaded, the text
    extracted from it does not start with the error marker and has at least 50 characters
    after trimming, and the extract button is pressed;
  \<^item> the introduction request comes after it, in the same run and with no user action of
    its own, only when \<open>"error"\<close> is not in the field record, and it is built from that
    record;
  \<^item> the text-to-speech calls come after the introduction request and only when the audio
    button is pressed.
\<close>

theorem C5_stage_order:
  "stage_calls (run w i) = []
   \<or> (\<exists>name content job_text job_json job_intro.
         uploaded_file i = Some (name, content)
         \<and> job_text = fst (extract_text w (upload_path w name) (upload_ext w name))
         \<and> job_json = fst (extract_job_fields w job_text)
         \<and> job_intro = fst (generate_job_intro w job_json)
         \<and> extract_button i
         \<and> \<not> py_startswith job_text (py ''__READ_ERROR__'')
         \<and> 50 \<le> length (py_strip job_text)
         \<and> (stage_calls (run w i) = [Call (fields_request w job_text)]
              \<or> py_contains (py ''error'') job_json = Inr False
                \<and> (stage_calls (run w i)
                      = [Call (fields_request w job_text), Call (intro_request w job_json)]
                     \<or> audio_button i
                       \<and> (stage_calls (run w i)
                             = [Call (fields_request w job_text), Call (intro_request w job_json),
                                Call tts_init_call]
                            \<or> stage_calls (run w i)
                             = [Call (fields_request w job_text), Call (intro_request w job_json),
                                Call tts_init_call, Call (tts_to_file_call job_intro)]))))"
proof (cases "stage_calls (run w i) = []")
  case True
  then show ?thesis by blast
next
  case False
  from False obtain name content where up: "uploaded_file i = Some (name, content)"
    by (cases "uploaded_file i") (auto simp: stage_calls_run)
  define job_text where "job_text = fst (extract_text w (upload_path w name) (upload_ext w name))"
  define job_json where "job_json = fst (extract_job_fields w job_text)"
  define job_intro where "job_intro = fst (generate_job_intro w job_json)"
  from False up have run_text: "stage_calls (run w i) = stage_calls (text_stage w i job_text)"
    by (auto simp: stage_calls_run stage_calls_upload job_text_def split: if_splits)
  with False have gate: "\<not> py_startswith job_text (py ''__READ_ERROR__'')"
      "50 \<le> length (py_strip job_text)" "extract_button i"
    and run_fields: "stage_calls (run w i) = stage_calls (fields_stage w i job_text)"
    by (auto simp: stage_calls_text split: if_splits)
  show ?thesis
  proof (cases "py_contains (py ''error'') job_json = Inr False")
    case no_error: False
    with run_fields have "stage_calls (run w i) = [Call (fields_request w job_text)]"
      by (simp add: stage_calls_fields job_json_def)
    with up gate job_text_def job_json_def job_intro_def show ?thesis by blast
  next
    case True
    with run_fields have run_intro: "stage_calls (run w i)
        = Call (fields_request w job_text) # stage_calls (intro_stage w i job_json)"
      by (simp add: stage_calls_fields job_json_def)
    show ?thesis
    proof (cases "audio_button i")
      case False
      with run_intro have "stage_calls (run w i)
          = [Call (fields_request w job_text), Call (intro_request w job_json)]"
        by (simp add: stage_calls_intro)
      with up gate True job_text_def job_json_def job_intro_def show ?thesis by blast
    next
      case audio: True
      with run_intro stage_calls_tts [of w job_intro]
      have "stage_calls (run w i)
              = [Call (fields_request w job_text), Call (intro_request w job_json),
                 Call tts_init_call]
            \<or> stage_calls (run w i)
              = [Call (fields_request w job_text), Call (intro_request w job_json),
                 Call tts_init_call, Call (tts_to_file_call job_intro)]"
        by (auto simp: stage_calls_intro job_intro_def)
      with up gate True audio job_text_def job_json_def job_intro_def show ?thesis by blast
    qed
  qed
qed

lemmas world_eval = example_world_def offline_world_def upload_def upload_ext_def upload_path_def
  split_dot_last_def ascii_lower_def os_path_join_def UPLOAD_PATH_def makedirs_call_def

lemma posting_text:
  "py_strip posting = posting" "50 \<le> length posting"
  "\<not> py_startswith posting (py ''__READ_ERROR__'')"
  by (simp_all add: posting_def py_strip_def py_isspace_def py_startswith_def py_simps)

lemma example_upload:
  "effect (example_world text reply) makedirs_call = None"
  "write_file (example_world text reply) p b = None"
  "upload_ext (example_world text reply) (py ''posting.txt'') = py ''txt''"
  "upload_path (example_world text reply) (py ''posting.txt'') = py ''__DATA__/jobdesc.txt''"
  "fst (extract_text (example_world text reply) p (py ''txt'')) = py_strip text"
  by (simp_all add: world_eval extract_text_def extract_text_try_def py_simps)

lemma full_reply_fields:
  "fst (extract_job_fields (example_world text full_reply) job_text) = full_record"
  by (simp add: extract_job_fields_def extract_job_fields_try_def chat_content_example
      parse_reply_strict full_reply_value)

lemma full_record_no_error: "py_contains (py ''error'') full_record = Inr False"
  by (simp add: full_record_def dict_keys_def py_simps)

text \<open>
  C5 as stated fails: in this run the user has pressed the extract button and nothing else,
  and the introduction request is issued all the same, right after the field-extraction
  request.
\<close>

theorem C5_counterexample:
  "extract_button (upload (py ''posting.txt'') posting True False)
   \<and> \<not> audio_button (upload (py ''posting.txt'') posting True False)
   \<and> stage_calls (run (example_world posting full_reply)
                     (upload (py ''posting.txt'') posting True False))
     = [Call (fields_request (example_world posting full_reply) posting),
        Call (intro_request (example_world posting full_reply) full_record)]"
  by (simp add: stage_calls_run stage_calls_upload stage_calls_text stage_calls_fields
      stage_calls_intro upload_def example_upload posting_text full_reply_fields
      full_record_no_error)

section \<open>The short-text guard and the error marker\<close>


lemma no_warning_tts: "st_warning_short \<notin> set (tts_stage w job_intro)"
  by (simp add: tts_stage_def st_warning_short_def tts_init_call_def tts_to_file_call_def
      call_def split: option.splits)

lemma no_warning_intro: "st_warning_short \<notin> set (intro_stage w i job_json)"
  using no_warning_tts [of w "fst (generate_job_intro w job_json)"]
  by (simp add: intro_stage_def generate_job_intro_def intro_request_def st_warning_short_def
      st_button_audio_def call_def)

lemma no_warning_fields: "st_warning_short \<notin> set (fields_stage w i job_text)"
  using no_warning_intro [of w i "fst (extract_job_fields w job_text)"]
  by (simp add: fields_stage_def extract_job_fields_def fields_request_def st_warning_short_def
      call_def split: sum.splits bool.splits)

lemma warning_text_stage:
  "st_warning_short \<in> set (text_stage w i job_text)
   \<longleftrightarrow> \<not> py_startswith job_text (py ''__READ_ERROR__'') \<and> length (py_strip job_text) < 50"
  using no_warning_fields [of w i job_text]
  by (simp add: text_stage_def st_error_read_def st_warning_short_def st_button_extract_def
      call_def)

lemma short_text_stage:
  "\<not> py_startswith job_text (py ''__READ_ERROR__'') \<Longrightarrow> length (py_strip job_text) < 50
   \<Longrightarrow> text_stage w i job_text = [st_warning_short]"
  by (simp add: text_stage_def)

lemma run_upload:
  assumes "effect w makedirs_call = None" and "uploaded_file i = Some (name, content)"
    and "write_file w (upload_path w name) content = None"
  shows "run w i =
     [Call makedirs_call,
      Call (call ''st.title''
        [PStr ([0xF0, 0x178, 0x201C, 0x2039]
               @ py '' Job Description Field Extractor + Audio Intro (Groq LLM)'')] []),
      Call (call ''st.file_uploader''
        [PStr (py ''Upload a Job Description file (PDF, DOCX, or TXT)'')]
        [(''type'', PList [PStr (py ''pdf''), PStr (py ''docx''), PStr (py ''txt'')])]),
      WriteFile (upload_path w name) content]
     @ extract_text_calls (upload_path w name) (upload_ext w name)
     @ text_stage w i (fst (extract_text w (upload_path w name) (upload_ext w name)))"
  using assms by (simp add: run_def upload_stage_def extract_text_def)

lemma no_warning_before:
  "st_warning_short \<notin> set (extract_text_calls p ft)"
  "st_button_extract \<notin> set (extract_text_calls p ft)"
  "st_warning_short \<noteq> Call makedirs_call" "st_button_extract \<noteq> Call makedirs_call"
  "st_button_extract \<noteq> st_warning_short"
  "st_warning_short \<noteq> Call (call ''st.title'' a k)"
  "st_button_extract \<noteq> Call (call ''st.title'' a k)"
  "st_warning_short \<noteq> Call (call ''st.file_uploader'' a k)"
  "st_button_extract \<noteq> Call (call ''st.file_uploader'' a k)"
  "st_warning_short \<noteq> WriteFile p b" "st_button_extract \<noteq> WriteFile p b"
  by (simp_all add: extract_text_calls_def st_warning_short_def st_button_extract_def
      makedirs_call_def call_def)

lemma warning_run:
  assumes "effect w makedirs_call = None" and "uploaded_file i = Some (name, content)"
    and "write_file w (upload_path w name) content = None"
    and "job_text = fst (extract_text w (upload_path w name) (upload_ext w name))"
  shows "st_warning_short \<in> set (run w i)
         \<longleftrightarrow> \<not> py_startswith job_text (py ''__READ_ERROR__'') \<and> length (py_strip job_text) < 50"
  by (simp add: run_upload [OF assms(1-3), folded assms(4)] warning_text_stage no_warning_before)

lemma short_run:
  assumes "effect w makedirs_call = None" and "uploaded_file i = Some (name, content)"
    and "write_file w (upload_path w name) content = None"
    and "job_text = fst (extract_text w (upload_path w name) (upload_ext w name))"
    and "\<not> py_startswith job_text (py ''__READ_ERROR__'')" and "length (py_strip job_text) < 50"
  shows "last (run w i) = st_warning_short" and "st_button_extract \<notin> set (run w i)"
    and "stage_calls (run w i) = []"
proof -
  note shape = run_upload [OF assms(1-3), folded assms(4)]
  have st: "text_stage w i job_text = [st_warning_short]"
    using assms(5,6) by (rule short_text_stage)
  show "last (run w i) = st_warning_short"
    by (simp add: shape st)
  show "st_button_extract \<notin> set (run w i)"
    by (simp add: shape st no_warning_before)
  show "stage_calls (run w i) = []"
    using assms by (simp add: stage_calls_run stage_calls_upload stage_calls_text)
qed

lemma error_run:
  assumes "effect w makedirs_call = None" and "uploaded_file i = Some (name, content)"
    and "write_file w (upload_path w name) content = None"
    and "job_text = fst (extract_text w (upload_path w name) (upload_ext w name))"
    and "py_startswith job_text (py ''__READ_ERROR__'')"
  shows "last (run w i) = st_error_read job_text" and "st_button_extract \<notin> set (run w i)"
    and "stage_calls (run w i) = []"
proof -
  note shape = run_upload [OF assms(1-3), folded assms(4)]
  have st: "text_stage w i job_text = [st_error_read job_text]"
    using assms(5) by (simp add: text_stage_def)
  show "last (run w i) = st_error_read job_text"
    by (simp add: shape st)
  show "st_button_extract \<notin> set (run w i)"
    by (simp add: shape st no_warning_before) (simp add: st_button_extract_def st_error_read_def call_def)
  show "stage_calls (run w i) = []"
    using assms by (simp add: stage_calls_run stage_calls_upload stage_calls_text)
qed

text \<open>
  C3, as the code has it. In a run that reads an uploaded file, the short-text warning is
  shown exactly when the extracted text does not start with the error marker and has fewer
  than 50 characters after trimming (so it is not shown for a text of 50 characters or
  more); and when it is shown it is the last thing the run does: the extract button is not
  rendered and no request or text-to-speech call is made, whatever the user pressed.
\<close>

theorem C3_short_text:
  assumes "effect w makedirs_call = None" and "uploaded_file i = Some (name, content)"
    and "write_file w (upload_path w name) content = None"
    and "job_text = fst (extract_text w (upload_path w name) (upload_ext w name))"
  shows "(st_warning_short \<in> set (run w i)
          \<longleftrightarrow> \<not> py_startswith job_text (py ''__READ_ERROR__'') \<and> length (py_strip job_text) < 50)
         \<and> (50 \<le> length (py_strip job_text) \<longrightarrow> st_warning_short \<notin> set (run w i))
         \<and> (st_warning_short \<in> set (run w i) \<longrightarrow>
              last (run w i) = st_warning_short
              \<and> st_button_extract \<notin> set (run w i)
              \<and> stage_calls (run w i) = [])"
  using warning_run [OF assms] short_run [OF assms] by auto

lemma short_texts:
  "py_strip (py ''Hiring now'') = py ''Hiring now''"
  "\<not> py_startswith (py ''Hiring now'') (py ''__READ_ERROR__'')"
  "py_strip (py ''Join us!'') = py ''Join us!''"
  "\<not> py_startswith (py ''Join us!'') (py ''__READ_ERROR__'')"
  "py_strip (py ''__READ_ERROR__ is our marker'') = py ''__READ_ERROR__ is our marker''"
  "py_startswith (py ''__READ_ERROR__ is our marker'') (py ''__READ_ERROR__'')"
  "py_strip (py ''__READ_ERROR__:boom'') = py ''__READ_ERROR__:boom''"
  "py_startswith (py ''__READ_ERROR__:boom'') (py ''__READ_ERROR__'')"
  by (simp_all add: py_strip_def py_isspace_def py_startswith_def py_simps)

text \<open>A ten-character text: the warning is shown, and it is the last event of the run.\<close>

theorem C3_witness:
  "effect (example_world (py ''Hiring now'') full_reply) makedirs_call = None
   \<and> uploaded_file (upload (py ''posting.txt'') (py ''Hiring now'') False False)
       = Some (py ''posting.txt'', py ''Hiring now'')
   \<and> write_file (example_world (py ''Hiring now'') full_reply)
        (upload_path (example_world (py ''Hiring now'') full_reply) (py ''posting.txt''))
        (py ''Hiring now'') = None
   \<and> length (py_strip (py ''Hiring now'')) < 50
   \<and> st_warning_short \<in> set (run (example_world (py ''Hiring now'') full_reply)
                                  (upload (py ''posting.txt'') (py ''Hiring now'') False False))
   \<and> last (run (example_world (py ''Hiring now'') full_reply)
              (upload (py ''posting.txt'') (py ''Hiring now'') False False)) = st_warning_short"
proof -
  let ?w = "example_world (py ''Hiring now'') full_reply"
  let ?i = "upload (py ''posting.txt'') (py ''Hiring now'') False False"
  have a: "effect ?w makedirs_call = None" by (rule example_upload)
  have b: "uploaded_file ?i = Some (py ''posting.txt'', py ''Hiring now'')"
    by (simp add: upload_def)
  have c: "write_file ?w (upload_path ?w (py ''posting.txt'')) (py ''Hiring now'') = None"
    by (rule example_upload)
  have d: "py ''Hiring now''
           = fst (extract_text ?w (upload_path ?w (py ''posting.txt''))
                    (upload_ext ?w (py ''posting.txt'')))"
    by (simp add: example_upload short_texts)
  have e: "length (py_strip (py ''Hiring now'')) < 50"
    by (simp add: short_texts) (simp add: py_simps)
  from C3_short_text [OF a b c d] a b c e short_texts(2)
  show ?thesis by blast
qed

text \<open>
  C3 as stated fails. For the eight-character text \<open>Join us!\<close> the extract button is not
  rendered and no request is made, although the input says the button was pressed:
  proceeding is blocked. And the text \<open>__READ_ERROR__ is our marker\<close> has fewer than 50
  characters, yet the warning is not shown for it: the shell shows the read error.
\<close>

theorem C3_counterexample:
  "length (py_strip (py ''Join us!'')) < 50
   \<and> extract_button (upload (py ''posting.txt'') (py ''Join us!'') True False)
   \<and> st_button_extract \<notin> set (run (example_world (py ''Join us!'') full_reply)
                                   (upload (py ''posting.txt'') (py ''Join us!'') True False))
   \<and> stage_calls (run (example_world (py ''Join us!'') full_reply)
                     (upload (py ''posting.txt'') (py ''Join us!'') True False)) = []
   \<and> length (py_strip (py ''__READ_ERROR__ is our marker'')) < 50
   \<and> st_warning_short \<notin> set (run (example_world (py ''__READ_ERROR__ is our marker'') full_reply)
                                  (upload (py ''posting.txt'') (py ''__READ_ERROR__ is our marker'')
                                     True False))"
proof -
  let ?w = "example_world (py ''Join us!'') full_reply"
  let ?i = "upload (py ''posting.txt'') (py ''Join us!'') True False"
  let ?w' = "example_world (py ''__READ_ERROR__ is our marker'') full_reply"
  let ?i' = "upload (py ''posting.txt'') (py ''__READ_ERROR__ is our marker'') True False"
  have a: "effect ?w makedirs_call = None" "effect ?w' makedirs_call = None"
    by (rule example_upload)+
  have b: "uploaded_file ?i = Some (py ''posting.txt'', py ''Join us!'')"
    "uploaded_file ?i' = Some (py ''posting.txt'', py ''__READ_ERROR__ is our marker'')"
    by (simp_all add: upload_def)
  have c: "write_file ?w (upload_path ?w (py ''posting.txt'')) (py ''Join us!'') = None"
    "write_file ?w' (upload_path ?w' (py ''posting.txt'')) (py ''__READ_ERROR__ is our marker'') = None"
    by (rule example_upload)+
  have d: "py ''Join us!''
           = fst (extract_text ?w (upload_path ?w (py ''posting.txt''))
                    (upload_ext ?w (py ''posting.txt'')))"
    "py ''__READ_ERROR__ is our marker''
           = fst (extract_text ?w' (upload_path ?w' (py ''posting.txt''))
                    (upload_ext ?w' (py ''posting.txt'')))"
    by (simp_all add: example_upload short_texts)
  have e: "length (py_strip (py ''Join us!'')) < 50"
    "length (py_strip (py ''__READ_ERROR__ is our marker'')) < 50"
    by (simp_all add: short_texts) (simp_all add: py_simps)
  have f: "extract_button ?i" by (simp add: upload_def)
  note s = short_run [OF a(1) b(1) c(1) d(1) short_texts(4) e(1)]
  have g: "st_warning_short \<notin> set (run ?w' ?i')"
    using warning_run [OF a(2) b(2) c(2) d(2)] short_texts(6) by blast
  from e f s(2,3) g show ?thesis by blast
qed

text \<open>
  C9: a text file whose content is \<open>__READ_ERROR__:boom\<close> is read without error, and
  \<open>extract_text\<close> returns for it what it returns when the read fails with the message
  \<open>boom\<close>. The shell then shows the content as a read error, as its last event, renders no
  extract button and makes no request; the run is the run of the failed read, event for event.
\<close>

theorem C9_marker_collision:
  "read_text (example_world (py ''__READ_ERROR__:boom'') full_reply) (py ''__DATA__/jobdesc.txt'')
     = Inr (py ''__READ_ERROR__:boom'')
   \<and> py_startswith (py ''__READ_ERROR__:boom'') (py ''__READ_ERROR__'')
   \<and> read_text offline_world (py ''__DATA__/jobdesc.txt'') = Inl (Exn OtherError (py ''boom''))
   \<and> extract_text (example_world (py ''__READ_ERROR__:boom'') full_reply)
        (py ''__DATA__/jobdesc.txt'') (py ''txt'')
       = extract_text offline_world (py ''__DATA__/jobdesc.txt'') (py ''txt'')
   \<and> fst (extract_text (example_world (py ''__READ_ERROR__:boom'') full_reply)
        (py ''__DATA__/jobdesc.txt'') (py ''txt'')) = py ''__READ_ERROR__:boom''
   \<and> last (run (example_world (py ''__READ_ERROR__:boom'') full_reply)
              (upload (py ''posting.txt'') (py ''__READ_ERROR__:boom'') True True))
       = st_error_read (py ''__READ_ERROR__:boom'')
   \<and> st_button_extract \<notin> set (run (example_world (py ''__READ_ERROR__:boom'') full_reply)
                                   (upload (py ''posting.txt'') (py ''__READ_ERROR__:boom'') True True))
   \<and> stage_calls (run (example_world (py ''__READ_ERROR__:boom'') full_reply)
                     (upload (py ''posting.txt'') (py ''__READ_ERROR__:boom'') True True)) = []
   \<and> run (example_world (py ''__READ_ERROR__:boom'') full_reply)
          (upload (py ''posting.txt'') (py ''__READ_ERROR__:boom'') True True)
       = run offline_world (upload (py ''posting.txt'') (py ''__READ_ERROR__:boom'') True True)"
proof -
  let ?w = "example_world (py ''__READ_ERROR__:boom'') full_reply"
  let ?i = "upload (py ''posting.txt'') (py ''__READ_ERROR__:boom'') True True"
  let ?p = "py ''__DATA__/jobdesc.txt''"
  have r1: "read_text ?w ?p = Inr (py ''__READ_ERROR__:boom'')"
    by (simp add: example_world_def offline_world_def)
  have r2: "read_text offline_world ?p = Inl (Exn OtherError (py ''boom''))"
    by (simp add: offline_world_def)
  have x1: "extract_text ?w ?p (py ''txt'')
            = (py ''__READ_ERROR__:boom'',
               [Call (call ''open'' [PStr ?p, PStr (py ''r'')] [(''encoding'', PStr (py ''utf-8''))])])"
    by (simp add: extract_text_def extract_text_try_def extract_text_calls_def r1 short_texts)
       (simp add: py_simps)
  have x2: "extract_text offline_world ?p (py ''txt'')
            = (py ''__READ_ERROR__:boom'',
               [Call (call ''open'' [PStr ?p, PStr (py ''r'')] [(''encoding'', PStr (py ''utf-8''))])])"
    by (simp add: extract_text_def extract_text_try_def extract_text_calls_def r2)
       (simp add: py_simps)
  have a: "effect ?w makedirs_call = None" by (rule example_upload)
  have b: "uploaded_file ?i = Some (py ''posting.txt'', py ''__READ_ERROR__:boom'')"
    by (simp add: upload_def)
  have c: "write_file ?w (upload_path ?w (py ''posting.txt'')) (py ''__READ_ERROR__:boom'') = None"
    by (rule example_upload)
  have d: "py ''__READ_ERROR__:boom''
           = fst (extract_text ?w (upload_path ?w (py ''posting.txt''))
                    (upload_ext ?w (py ''posting.txt'')))"
    by (simp add: example_upload short_texts)
  note er = error_run [OF a b c d short_texts(8)]
  have a': "effect offline_world makedirs_call = None" by (simp add: offline_world_def)
  have c': "write_file offline_world (upload_path offline_world (py ''posting.txt''))
              (py ''__READ_ERROR__:boom'') = None"
    by (simp add: offline_world_def)
  have pe: "upload_path offline_world (py ''posting.txt'') = ?p"
    "upload_ext offline_world (py ''posting.txt'') = py ''txt''"
    "upload_path ?w (py ''posting.txt'') = ?p" "upload_ext ?w (py ''posting.txt'') = py ''txt''"
    by (simp_all add: world_eval py_simps)
  have same: "run ?w ?i = run offline_world ?i"
    by (simp add: run_upload [OF a b c] run_upload [OF a' b c'] pe x1 x2 text_stage_def
        short_texts)
  from r1 r2 x1 x2 er same short_texts(8) show ?thesis by simp
qed

end
